theory Spec2Isabelle
  imports Main "HOL-Library.Word" "HOL-Library.Signed_Division"
begin

section \<open>Strings, slices and white space\<close>

text \<open>
  A Go \<open>string\<close> is a sequence of bytes and \<open>len\<close> counts bytes, so messages are
  modelled as \<^typ>\<open>string\<close> (lists of 8-bit characters).  A slice expression with an
  index outside \<open>0 .. len\<close> panics; the panic is a value of the model.
\<close>

datatype panic = SliceBoundsOutOfRange

definition sliceFrom :: "string \<Rightarrow> int \<Rightarrow> panic + string" where
  \<comment> \<open>\<open>s[i:]\<close>\<close>
  "sliceFrom s i =
     (if 0 \<le> i \<and> i \<le> int (length s) then Inr (drop (nat i) s)
      else Inl SliceBoundsOutOfRange)"

definition sliceTo :: "string \<Rightarrow> int \<Rightarrow> panic + string" where
  \<comment> \<open>\<open>s[:j]\<close>\<close>
  "sliceTo s j =
     (if 0 \<le> j \<and> j \<le> int (length s) then Inr (take (nat j) s)
      else Inl SliceBoundsOutOfRange)"

fun HasPrefix :: "string \<Rightarrow> string \<Rightarrow> bool" where
  "HasPrefix s [] = True"
| "HasPrefix [] (p # ps) = False"
| "HasPrefix (c # cs) (p # ps) = (c = p \<and> HasPrefix cs ps)"

text \<open>
  \<open>strings.TrimSpace\<close> (Go standard library) removes all leading and all trailing
  white space as defined by \<open>unicode.IsSpace\<close>, decoding the bytes as UTF-8.  The
  white-space code points are U+0009..U+000D, U+0020, U+0085, U+00A0, U+1680,
  U+2000..U+200A, U+2028, U+2029, U+202F, U+205F and U+3000; \<open>spaceRunes\<close> lists their
  UTF-8 encodings.  A byte sequence that is not one of these encodings decodes to a
  rune that is not white space, so trimming stops there.
\<close>

definition spaceRunes :: "string list" where
  "spaceRunes =
    [[CHR 0x09], [CHR 0x0A], [CHR 0x0B], [CHR 0x0C], [CHR 0x0D], [CHR 0x20],
     [CHR 0xC2, CHR 0x85], [CHR 0xC2, CHR 0xA0],
     [CHR 0xE1, CHR 0x9A, CHR 0x80],
     [CHR 0xE2, CHR 0x80, CHR 0x80], [CHR 0xE2, CHR 0x80, CHR 0x81],
     [CHR 0xE2, CHR 0x80, CHR 0x82], [CHR 0xE2, CHR 0x80, CHR 0x83],
     [CHR 0xE2, CHR 0x80, CHR 0x84], [CHR 0xE2, CHR 0x80, CHR 0x85],
     [CHR 0xE2, CHR 0x80, CHR 0x86], [CHR 0xE2, CHR 0x80, CHR 0x87],
     [CHR 0xE2, CHR 0x80, CHR 0x88], [CHR 0xE2, CHR 0x80, CHR 0x89],
     [CHR 0xE2, CHR 0x80, CHR 0x8A],
     [CHR 0xE2, CHR 0x80, CHR 0xA8], [CHR 0xE2, CHR 0x80, CHR 0xA9],
     [CHR 0xE2, CHR 0x80, CHR 0xAF], [CHR 0xE2, CHR 0x81, CHR 0x9F],
     [CHR 0xE3, CHR 0x80, CHR 0x80]]"

fun leadingRune :: "string list \<Rightarrow> string \<Rightarrow> nat" where
  \<comment> \<open>byte width of the rune of \<open>rs\<close> that \<open>s\<close> starts with; 0 when there is none\<close>
  "leadingRune [] s = 0"
| "leadingRune (r # rs) s = (if HasPrefix s r then length r else leadingRune rs s)"

fun trimLeft :: "string list \<Rightarrow> string \<Rightarrow> string" where
  "trimLeft rs [] = []"
| "trimLeft rs (c # cs) =
     (case leadingRune rs (c # cs) of
        0 \<Rightarrow> c # cs
      | Suc k \<Rightarrow> trimLeft rs (drop k cs))"

definition TrimLeftSpace :: "string \<Rightarrow> string" where
  "TrimLeftSpace s = trimLeft spaceRunes s"

definition TrimRightSpace :: "string \<Rightarrow> string" where
  \<comment> \<open>the same scan from the end: on the reversed bytes with the reversed encodings\<close>
  "TrimRightSpace s = rev (trimLeft (map rev spaceRunes) (rev s))"

definition TrimSpace :: "string \<Rightarrow> string" where
  "TrimSpace s = TrimRightSpace (TrimLeftSpace s)"

definition startsWithSpace :: "string \<Rightarrow> bool" where
  "startsWithSpace s = (leadingRune spaceRunes s \<noteq> 0)"

definition endsWithSpace :: "string \<Rightarrow> bool" where
  "endsWithSpace s = (leadingRune (map rev spaceRunes) (rev s) \<noteq> 0)"

section \<open>Message truncation (builderoutput.go)\<close>

text \<open>
  \<open>maxMessageBytes\<close> is a package variable of type \<open>int\<close> (3000 unless a test
  changes it); the functions below take its current value as their first argument.
\<close>

definition keepTail :: "int \<Rightarrow> string \<Rightarrow> panic + string" where
  "keepTail maxMessageBytes message0 =
     (let message = TrimSpace message0 in
      if int (length message) \<le> maxMessageBytes then Inr message
      else
        (case sliceFrom message (int (length message) - maxMessageBytes + 3) of
           Inl p \<Rightarrow> Inl p
         | Inr t \<Rightarrow> Inr (''...'' @ t)))"

definition keepHead :: "int \<Rightarrow> string \<Rightarrow> panic + string" where
  "keepHead maxMessageBytes message0 =
     (let message = TrimSpace message0 in
      if int (length message) \<le> maxMessageBytes then Inr message
      else
        (case sliceTo message (maxMessageBytes - 3) of
           Inl p \<Rightarrow> Inl p
         | Inr h \<Rightarrow> Inr (h @ ''...'')))"

section \<open>Structured errors and the output document (builderoutput.go)\<close>

text \<open>
  The type \<open>Status\<close> is declared in another file of the package; the constants
  below are the ones that occur in the sources verified here (its zero value is
  taken to be \<open>StatusOk\<close>).  \<open>StatusInternal\<close> attributes a failure to the runtime,
  \<open>StatusUnknown\<close> to the user (see \<open>InternalErrorf\<close> and \<open>UserErrorf\<close>).
\<close>

datatype Status = StatusOk | StatusUnknown | StatusInternal

record Error =
  BuildpackID :: string
  BuildpackVersion :: string
  Type :: Status
  Status :: Status
  ID :: string
  Message :: string

text \<open>
  The fields \<open>BuildpackID\<close> and \<open>BuildpackVersion\<close> of \<open>builderStat\<close> carry the
  prefix \<open>stat\<close> here, since \<open>Error\<close> has fields of the same names.
\<close>

record builderStat =
  statBuildpackID :: string
  statBuildpackVersion :: string
  DurationMs :: int
  UserDurationMs :: int

record builderOutput =
  Error :: Error
  Stats :: "builderStat list"

definition errorIDLength :: nat where
  "errorIDLength = 8"

definition builderOutputFilename :: string where
  "builderOutputFilename = ''output''"

subsection \<open>The error identifier\<close>

text \<open>
  SHA-256 (\<open>crypto/sha256\<close>) is a parameter: a function from the bytes written to the
  256-bit digest.  \<open>Sprintf_x\<close> is \<open>fmt.Sprintf("%x", digest)\<close>: 64 lower-case
  hexadecimal digits, most significant first, so the slice \<open>result[:errorIDLength]\<close>
  is always in range.  \<open>ToLower\<close> is \<open>strings.ToLower\<close> on ASCII, which is all a
  string of hexadecimal digits holds.
\<close>

definition hexDigit :: "nat \<Rightarrow> char" where
  "hexDigit n = ''0123456789abcdef'' ! n"

definition Sprintf_x :: "256 word \<Rightarrow> string" where
  "Sprintf_x d =
     map (\<lambda>i. hexDigit (unat (take_bit 4 (drop_bit (4 * (63 - i)) d)))) [0..<64]"

definition ToLower :: "string \<Rightarrow> string" where
  "ToLower s =
     map (\<lambda>c. if (65::nat) \<le> of_char c \<and> (of_char c :: nat) \<le> 90
               then char_of ((of_char c :: nat) + 32) else c) s"

definition generateErrorID :: "(string \<Rightarrow> 256 word) \<Rightarrow> string list \<Rightarrow> string" where
  "generateErrorID sha256 parts =
     (let result = Sprintf_x (sha256 (concat parts))
      in ToLower (take errorIDLength result))"

text \<open>
  \<open>Errorf\<close>: the argument \<open>msg\<close> is the formatted message,
  \<open>fmt.Sprintf(format, args...)\<close>.
\<close>

definition Errorf :: "(string \<Rightarrow> 256 word) \<Rightarrow> Status \<Rightarrow> string \<Rightarrow> Error" where
  "Errorf sha256 status msg =
     \<lparr>BuildpackID = [], BuildpackVersion = [], Type = status, Status = status,
      ID = generateErrorID sha256 [msg], Message = msg\<rparr>"

definition InternalErrorf :: "(string \<Rightarrow> 256 word) \<Rightarrow> string \<Rightarrow> Error" where
  "InternalErrorf sha256 msg = Errorf sha256 StatusInternal msg"

definition UserErrorf :: "(string \<Rightarrow> 256 word) \<Rightarrow> string \<Rightarrow> Error" where
  "UserErrorf sha256 msg = Errorf sha256 StatusUnknown msg"

subsection \<open>Results and options of the command executor\<close>

text \<open>
  The executor is another file of the package (\<open>exec.go\<close>).  Its result type and
  its options are declared here as the tests and the callers use them: the fields
  of \<open>ExecResult\<close> are those of \<open>exec_test.go\<close>, the options are the ones named there.
  A message producer maps a result to the message of the error; the producers that
  truncate can panic as \<open>keepTail\<close> and \<open>keepHead\<close> can.
\<close>

record ExecResult =
  ExitCode :: int
  Stdout :: string
  Stderr :: string
  Combined :: string

datatype ExecOption =
    WithEnv "string list"
  | WithWorkDir string
  | WithUserAttribution
  | WithUserTimingAttribution
  | WithUserFailureAttribution
  | WithMessageProducer "ExecResult \<Rightarrow> panic + string"
  | WithStdoutTail
  | WithStderrTail
  | WithCombinedTail
  | WithStdoutHead
  | WithStderrHead
  | WithCombinedHead

subsection \<open>The context and the world outside\<close>

text \<open>
  Of the \<open>Context\<close> (declared in another file of the package) the functions below read
  the buildpack identity (\<open>ctx.BuildpackID()\<close>, \<open>ctx.BuildpackVersion()\<close>) and the
  user-attributed duration \<open>ctx.stats.user\<close>, in nanoseconds; the tests also set
  \<open>ctx.warnings\<close>.  What a function does to the outside is recorded as a list of
  events: a log call with its format string and arguments, a cache hit or miss, a
  command that was run with its options, a change of the environment.
\<close>

record Context =
  buildpackID :: string
  buildpackVersion :: string
  stats_user :: int
  warnings :: "string list"

datatype event =
    Warnf string "string list"
  | Debugf string "string list"
  | Logf string "string list"
  | CacheHit string
  | CacheMiss string
  | Ran "string list" "ExecOption list"
  | Setenv string string
  | Override string string
  | Default string string

text \<open>
  A file content \<open>JSON d\<close> is a JSON text that decodes to the document \<open>d\<close>; any
  other content fails to decode, with the decoder's message.  The world holds the environment variable
  \<open>BUILDER_OUTPUT\<close>, the files, the next value of \<open>rand.Int()\<close>, and for each
  operation that can fail the error it returns, if any.
\<close>

datatype content = JSON builderOutput | Malformed string

record world =
  BUILDER_OUTPUT :: string
  files :: "string \<rightharpoonup> content"
  randInt :: nat
  marshalErr :: "string option"
  mkdirErr :: "string option"
  writeErr :: "string \<Rightarrow> string option"
  readErr :: "string option"
  mvErr :: "string option"

definition Join :: "string \<Rightarrow> string \<Rightarrow> string" where
  \<comment> \<open>\<open>filepath.Join\<close> of a directory and a file name (without the cleaning of the path)\<close>
  "Join dir name = dir @ ''/'' @ name"

fun showNat :: "nat \<Rightarrow> string" where
  \<comment> \<open>the verb \<open>%d\<close> on a non-negative integer\<close>
  "showNat n =
     (if n < 10 then [char_of (48 + n)]
      else showNat (n div 10) @ [char_of (48 + n mod 10)])"

declare showNat.simps [simp del]

definition FileExists :: "world \<Rightarrow> string \<Rightarrow> bool" where
  \<comment> \<open>Modelled from the spec: the method \<open>ctx.FileExists\<close> is missing from the sources;
      the specification (4.2) has the document "at the canonical path (if any)" read\<close>
  "FileExists w path = (files w path \<noteq> None)"

definition ReadFile :: "world \<Rightarrow> string \<Rightarrow> string + content" where
  "ReadFile w path =
     (case readErr w of
        Some e \<Rightarrow> Inl e
      | None \<Rightarrow> (case files w path of None \<Rightarrow> Inl ''no such file or directory''
                 | Some c \<Rightarrow> Inr c))"

definition Unmarshal :: "content \<Rightarrow> string + builderOutput" where
  "Unmarshal c = (case c of JSON bo \<Rightarrow> Inr bo | Malformed e \<Rightarrow> Inl e)"

definition Milliseconds :: "int \<Rightarrow> int" where
  \<comment> \<open>\<open>time.Duration.Milliseconds\<close>: integer division, rounding towards zero\<close>
  "Milliseconds d = d sdiv 1000000"

subsection \<open>What json.Marshal makes of a string\<close>

text \<open>
  \<open>encoding/json\<close> (Go standard library) writes a string rune by rune.  A byte at
  which no valid UTF-8 encoding starts is written as the escape of U+FFFD, byte by
  byte; every other rune is written so that decoding gives it back.  \<open>jsonString s\<close> is the
  string that the written text decodes to: \<open>s\<close> with each such byte replaced by the
  encoding of U+FFFD.  \<open>runeLen\<close> is the width of the valid encoding that a string
  starts with, after the tables of \<open>unicode/utf8\<close> (no overlong forms, no surrogates,
  nothing above U+10FFFF), and 0 when there is none; \<open>ValidString\<close> is
  \<open>utf8.ValidString\<close>.
\<close>

definition secondByte :: "nat \<Rightarrow> nat \<times> nat" where
  \<comment> \<open>the range of the second byte after the first byte \<open>b\<close>\<close>
  "secondByte b =
     (if b = 0xE0 then (0xA0, 0xBF)
      else if b = 0xED then (0x80, 0x9F)
      else if b = 0xF0 then (0x90, 0xBF)
      else if b = 0xF4 then (0x80, 0x8F)
      else (0x80, 0xBF))"

definition within :: "char \<Rightarrow> nat \<times> nat \<Rightarrow> bool" where
  "within c r = (fst r \<le> of_char c \<and> (of_char c :: nat) \<le> snd r)"

fun runeLen :: "string \<Rightarrow> nat" where
  "runeLen [] = 0"
| "runeLen (c # cs) =
     (let b = of_char c :: nat in
      if b < 0x80 then 1
      else if 0xC2 \<le> b \<and> b \<le> 0xDF then
        (case cs of
           c1 # _ \<Rightarrow> if within c1 (0x80, 0xBF) then 2 else 0
         | _ \<Rightarrow> 0)
      else if 0xE0 \<le> b \<and> b \<le> 0xEF then
        (case cs of
           c1 # c2 # _ \<Rightarrow>
             if within c1 (secondByte b) \<and> within c2 (0x80, 0xBF) then 3 else 0
         | _ \<Rightarrow> 0)
      else if 0xF0 \<le> b \<and> b \<le> 0xF4 then
        (case cs of
           c1 # c2 # c3 # _ \<Rightarrow>
             if within c1 (secondByte b) \<and> within c2 (0x80, 0xBF) \<and> within c3 (0x80, 0xBF)
             then 4 else 0
         | _ \<Rightarrow> 0)
      else 0)"

fun jsonString :: "string \<Rightarrow> string" where
  "jsonString [] = []"
| "jsonString (c # cs) =
     (case runeLen (c # cs) of
        0 \<Rightarrow> [CHR 0xEF, CHR 0xBF, CHR 0xBD] @ jsonString cs
      | Suc k \<Rightarrow> c # take k cs @ jsonString (drop k cs))"

fun ValidString :: "string \<Rightarrow> bool" where
  "ValidString [] = True"
| "ValidString (c # cs) =
     (case runeLen (c # cs) of
        0 \<Rightarrow> False
      | Suc k \<Rightarrow> ValidString (drop k cs))"

definition jsonError :: "Error \<Rightarrow> Error" where
  \<comment> \<open>the error that the text written for \<open>e\<close> decodes to\<close>
  "jsonError e =
     e\<lparr>BuildpackID := jsonString (BuildpackID e),
       BuildpackVersion := jsonString (BuildpackVersion e),
       ID := jsonString (ID e),
       Message := jsonString (Message e)\<rparr>"

definition jsonStat :: "builderStat \<Rightarrow> builderStat" where
  "jsonStat st =
     st\<lparr>statBuildpackID := jsonString (statBuildpackID st),
        statBuildpackVersion := jsonString (statBuildpackVersion st)\<rparr>"

definition Marshal :: "builderOutput \<Rightarrow> content" where
  \<comment> \<open>\<open>json.Marshal(&bo)\<close>: a text that decodes to \<open>bo\<close> with its strings as written\<close>
  "Marshal bo = JSON \<lparr>Error = jsonError (Error bo), Stats = map jsonStat (Stats bo)\<rparr>"

subsection \<open>saveErrorOutput\<close>

text \<open>
  The function changes the error it is given (message, buildpack identity) and the
  files, and it logs.  The model returns the three, or the panic of \<open>keepTail\<close>.
  The command \<open>mv -f tname fname\<close> runs through \<open>ctx.ExecWithErr\<close>; its outcome is
  \<open>mvErr\<close>, and when it succeeds the temporary file has replaced the output file.
\<close>

definition saveErrorOutput ::
  "int \<Rightarrow> Context \<Rightarrow> Error \<Rightarrow> world \<Rightarrow> panic + (Error \<times> world \<times> event list)" where
  "saveErrorOutput maxMessageBytes ctx be w =
     (let outputDir = BUILDER_OUTPUT w in
      if outputDir = [] then Inr (be, w, [])
      else
        case (if int (length (Message be)) > maxMessageBytes
              then keepTail maxMessageBytes (Message be) else Inr (Message be)) of
          Inl p \<Rightarrow> Inl p
        | Inr m \<Rightarrow>
           (let be1 = be\<lparr>Message := m, BuildpackID := buildpackID ctx,
                            BuildpackVersion := buildpackVersion ctx\<rparr>;
                bo = \<lparr>Error = be1, Stats = []\<rparr>
            in case marshalErr w of
                 Some err \<Rightarrow>
                   Inr (be1, w,
                     [Warnf ''Failed to marshal, skipping structured error output: %v'' [err]])
               | None \<Rightarrow>
                  (case mkdirErr w of
                     Some err \<Rightarrow>
                       Inr (be1, w,
                         [Warnf ''Failed to create dir %s, skipping structured error output: %v''
                            [outputDir, err]])
                   | None \<Rightarrow>
                      (let tname = Join outputDir
                                     (builderOutputFilename @ ''-'' @ showNat (randInt w))
                       in case writeErr w tname of
                            Some err \<Rightarrow>
                              Inr (be1, w,
                                [Warnf ''Failed to write %s, skipping structured error output: %v''
                                   [tname, err]])
                          | None \<Rightarrow>
                             (let w1 = w\<lparr>files := (files w)(tname \<mapsto> Marshal bo)\<rparr>;
                                  fname = Join outputDir builderOutputFilename
                              in case mvErr w of
                                   Some err \<Rightarrow>
                                     Inr (be1, w1,
                                       [Warnf ''Failed to move %s to %s, skipping structured error output: %v''
                                          [tname, fname, err]])
                                 | None \<Rightarrow>
                                     Inr (be1,
                                          w1\<lparr>files := (files w1)(fname := files w1 tname,
                                                                  tname := None)\<rparr>,
                                          []))))))"

subsection \<open>saveSuccessOutput\<close>

text \<open>
  The strings of the document written here are those of a decoded document, which
  are valid UTF-8, and the identity of the buildpack; \<open>json.Marshal\<close> writes valid
  UTF-8 so that it decodes to itself, and the document is written as it is.
\<close>

definition zeroError :: Error where
  \<comment> \<open>the zero value of the struct\<close>
  "zeroError =
     \<lparr>BuildpackID = [], BuildpackVersion = [], Type = StatusOk, Status = StatusOk,
      ID = [], Message = []\<rparr>"

definition zeroOutput :: builderOutput where
  "zeroOutput = \<lparr>Error = zeroError, Stats = []\<rparr>"

definition readOutput :: "world \<Rightarrow> string \<Rightarrow> event list + builderOutput" where
  \<comment> \<open>the block \<open>if ctx.FileExists(fname) { ... }\<close>: the document to extend, or the warning\<close>
  "readOutput w fname =
     (if FileExists w fname then
        (case ReadFile w fname of
           Inl err \<Rightarrow> Inl [Warnf ''Failed to read %s, skipping statistics: %v'' [fname, err]]
         | Inr c \<Rightarrow>
            (case Unmarshal c of
               Inl err \<Rightarrow>
                 Inl [Warnf ''Failed to unmarshal %s, skipping statistics: %v'' [fname, err]]
             | Inr bo \<Rightarrow> Inr bo))
      else Inr zeroOutput)"

definition saveSuccessOutput :: "Context \<Rightarrow> int \<Rightarrow> world \<Rightarrow> world \<times> event list" where
  "saveSuccessOutput ctx duration w =
     (let outputDir = BUILDER_OUTPUT w in
      if outputDir = [] then (w, [])
      else
        (let fname = Join outputDir builderOutputFilename in
         case readOutput w fname of
           Inl warns \<Rightarrow> (w, warns)
         | Inr bo0 \<Rightarrow>
            (let bo = bo0\<lparr>Stats := Stats bo0 @
                        [\<lparr>statBuildpackID = buildpackID ctx,
                          statBuildpackVersion = buildpackVersion ctx,
                          DurationMs = Milliseconds duration,
                          UserDurationMs = Milliseconds (stats_user ctx)\<rparr>]\<rparr>
             in case marshalErr w of
                  Some err \<Rightarrow>
                    (w, [Warnf ''Failed to marshal stats, skipping statistics: %v'' [err]])
                | None \<Rightarrow>
                   (case mkdirErr w of
                      Some err \<Rightarrow>
                        (w, [Warnf ''Failed to create dir %s, skipping statistics: %v''
                               [outputDir, err]])
                    | None \<Rightarrow>
                       (case writeErr w fname of
                          Some err \<Rightarrow>
                            (w, [Warnf ''Failed to write %s, skipping statistics: %v''
                                   [fname, err]])
                        | None \<Rightarrow>
                            (w\<lparr>files := (files w)(fname \<mapsto> JSON bo)\<rparr>, []))))))"

subsection \<open>Names and examples used in the statements\<close>

definition tempName :: "world \<Rightarrow> string" where
  \<comment> \<open>\<open>tname\<close> of \<open>saveErrorOutput\<close>\<close>
  "tempName w = Join (BUILDER_OUTPUT w) (builderOutputFilename @ ''-'' @ showNat (randInt w))"

definition outputName :: "world \<Rightarrow> string" where
  \<comment> \<open>\<open>fname\<close>, the path of the output document\<close>
  "outputName w = Join (BUILDER_OUTPUT w) builderOutputFilename"

definition exampleWorld :: world where
  "exampleWorld =
     \<lparr>BUILDER_OUTPUT = ''/out'', files = Map.empty, randInt = 7, marshalErr = None,
      mkdirErr = None, writeErr = (\<lambda>_. None), readErr = None, mvErr = None\<rparr>"

definition exampleContext :: Context where
  \<comment> \<open>the context of \<open>TestSaveBuilderSuccessOutput\<close>, case "no file warnings"\<close>
  "exampleContext =
     \<lparr>buildpackID = ''my-id'', buildpackVersion = ''my-version'',
      stats_user = 5000000000, warnings = [''Test warning about a conflicting file.'']\<rparr>"

definition zeroDigest :: "string \<Rightarrow> 256 word" where
  \<comment> \<open>a stand-in for the hash function in examples\<close>
  "zeroDigest bytes = 0"

definition lengthDigest :: "string \<Rightarrow> 256 word" where
  \<comment> \<open>a stand-in for the hash function that tells messages of different lengths apart:
      the first 32 bits of the digest are the number of bytes\<close>
  "lengthDigest bytes = push_bit 224 (of_nat (length bytes))"

definition cutMessage :: string where
  \<comment> \<open>nine bytes, the fourth and fifth being the UTF-8 encoding of U+00F6\<close>
  "cutMessage = ''123'' @ [CHR 0xC3, CHR 0xB6] @ ''abcd''"

definition savedError :: "panic + (Error \<times> world \<times> event list) \<Rightarrow> Error option" where
  \<comment> \<open>the error of the caller after \<open>saveErrorOutput\<close> has returned\<close>
  "savedError r = (case r of Inl p \<Rightarrow> None | Inr (be', w', evs) \<Rightarrow> Some be')"

definition savedDocument ::
  "panic + (Error \<times> world \<times> event list) \<Rightarrow> string \<Rightarrow> builderOutput option" where
  \<comment> \<open>the document that the file at \<open>path\<close> decodes to after \<open>saveErrorOutput\<close> has returned\<close>
  "savedDocument r path =
     (case r of
        Inl p \<Rightarrow> None
      | Inr (be', w', evs) \<Rightarrow>
          (case files w' path of Some (JSON doc) \<Rightarrow> Some doc | _ \<Rightarrow> None))"

definition persistedID :: "panic + (Error \<times> world \<times> event list) \<Rightarrow> string \<Rightarrow> string option" where
  \<comment> \<open>the \<open>errorId\<close> of that document\<close>
  "persistedID r path =
     (case savedDocument r path of None \<Rightarrow> None | Some doc \<Rightarrow> Some (ID (Error doc)))"

definition persistedMessage ::
  "panic + (Error \<times> world \<times> event list) \<Rightarrow> string \<Rightarrow> string option" where
  \<comment> \<open>the \<open>errorMessage\<close> of that document\<close>
  "persistedMessage r path =
     (case savedDocument r path of None \<Rightarrow> None | Some doc \<Rightarrow> Some (Message (Error doc)))"

definition callerMessage :: "panic + (Error \<times> world \<times> event list) \<Rightarrow> string option" where
  \<comment> \<open>the message of the caller's error after the call\<close>
  "callerMessage r = (case savedError r of None \<Rightarrow> None | Some be' \<Rightarrow> Some (Message be'))"

definition errorOutputFault :: "world \<Rightarrow> bool" where
  \<comment> \<open>one of the operations of \<open>saveErrorOutput\<close> fails\<close>
  "errorOutputFault w =
     (marshalErr w \<noteq> None \<or> mkdirErr w \<noteq> None \<or> writeErr w (tempName w) \<noteq> None
      \<or> mvErr w \<noteq> None)"

definition successOutputFault :: "world \<Rightarrow> bool" where
  \<comment> \<open>one of the operations of \<open>saveSuccessOutput\<close> after reading fails\<close>
  "successOutputFault w =
     (marshalErr w \<noteq> None \<or> mkdirErr w \<noteq> None \<or> writeErr w (outputName w) \<noteq> None)"



definition faultyWorld :: world where
  "faultyWorld = exampleWorld\<lparr>mkdirErr := Some ''permission denied''\<rparr>"

section \<open>The command executor\<close>

text \<open>
  Modelled from the spec: the parameters of a call, the six named message producers
  and the options (\<open>exec.go\<close>) are missing from the sources.  The specification (4.1,
  6) names the options: environment overrides, a working directory, the attribution
  mode in its four combinations, and the message producer, one of
  \<open>{stdout, stderr, combined} \<times> {head, tail}\<close> or a custom function.
  \<open>TestMessageProducers\<close> shows the named producers to be \<open>keepTail\<close> and \<open>keepHead\<close> of
  the stream.
\<close>

record execParams =
  cmd :: "string list"
  env :: "string list"
  dir :: string
  userTiming :: bool
  userFailure :: bool
  messageProducer :: "ExecResult \<Rightarrow> panic + string"

definition KeepStdoutTail :: "int \<Rightarrow> ExecResult \<Rightarrow> panic + string" where
  "KeepStdoutTail maxMessageBytes result = keepTail maxMessageBytes (Stdout result)"

definition KeepStderrTail :: "int \<Rightarrow> ExecResult \<Rightarrow> panic + string" where
  "KeepStderrTail maxMessageBytes result = keepTail maxMessageBytes (Stderr result)"

definition KeepCombinedTail :: "int \<Rightarrow> ExecResult \<Rightarrow> panic + string" where
  "KeepCombinedTail maxMessageBytes result = keepTail maxMessageBytes (Combined result)"

definition KeepStdoutHead :: "int \<Rightarrow> ExecResult \<Rightarrow> panic + string" where
  "KeepStdoutHead maxMessageBytes result = keepHead maxMessageBytes (Stdout result)"

definition KeepStderrHead :: "int \<Rightarrow> ExecResult \<Rightarrow> panic + string" where
  "KeepStderrHead maxMessageBytes result = keepHead maxMessageBytes (Stderr result)"

definition KeepCombinedHead :: "int \<Rightarrow> ExecResult \<Rightarrow> panic + string" where
  "KeepCombinedHead maxMessageBytes result = keepHead maxMessageBytes (Combined result)"

fun applyOption :: "int \<Rightarrow> execParams \<Rightarrow> ExecOption \<Rightarrow> execParams" where
  "applyOption mx p (WithEnv e) = p\<lparr>env := env p @ e\<rparr>"
| "applyOption mx p (WithWorkDir d) = p\<lparr>dir := d\<rparr>"
| "applyOption mx p WithUserAttribution = p\<lparr>userTiming := True, userFailure := True\<rparr>"
| "applyOption mx p WithUserTimingAttribution = p\<lparr>userTiming := True\<rparr>"
| "applyOption mx p WithUserFailureAttribution = p\<lparr>userFailure := True\<rparr>"
| "applyOption mx p (WithMessageProducer f) = p\<lparr>messageProducer := f\<rparr>"
| "applyOption mx p WithStdoutTail = p\<lparr>messageProducer := KeepStdoutTail mx\<rparr>"
| "applyOption mx p WithStderrTail = p\<lparr>messageProducer := KeepStderrTail mx\<rparr>"
| "applyOption mx p WithCombinedTail = p\<lparr>messageProducer := KeepCombinedTail mx\<rparr>"
| "applyOption mx p WithStdoutHead = p\<lparr>messageProducer := KeepStdoutHead mx\<rparr>"
| "applyOption mx p WithStderrHead = p\<lparr>messageProducer := KeepStderrHead mx\<rparr>"
| "applyOption mx p WithCombinedHead = p\<lparr>messageProducer := KeepCombinedHead mx\<rparr>"

definition configure :: "int \<Rightarrow> string list \<Rightarrow> ExecOption list \<Rightarrow> execParams" where
  "configure mx c opts =
     foldl (applyOption mx)
       \<lparr>cmd = c, env = [], dir = [], userTiming = False, userFailure = False,
        messageProducer = KeepCombinedTail mx\<rparr> opts"

definition blank :: "string \<Rightarrow> bool" where
  \<comment> \<open>an argument that is empty or consists of white space\<close>
  "blank a = (TrimSpace a = [])"

definition failure :: "(string \<Rightarrow> 256 word) \<Rightarrow> execParams \<Rightarrow> string \<Rightarrow> Error" where
  \<comment> \<open>the error of a failed call, attributed as the parameters say\<close>
  "failure sha256 p message =
     (if userFailure p then UserErrorf sha256 message
      else Errorf sha256 StatusInternal message)"

text \<open>
  Modelled from the spec: \<open>ExecWithErr\<close> (\<open>exec.go\<close>) is missing from the sources.  The
  specification (4.1) says: the command line must be non-empty, and "empty or
  all-blank arguments are rejected as a caller error, not a runtime error"; there
  is no result then.  The options are applied to the parameters of the call, the
  default message producer keeps the tail of the combined output.  The process is
  spawned and its result is returned, and on a non-zero exit or a spawn failure an
  error is returned as well, caller-caused if the attribution mode includes failure
  attribution, else runtime-caused, with the message of the configured producer.
  The errors are built with \<open>UserErrorf\<close> (caller-caused, \<open>StatusUnknown\<close>) and
  \<open>Errorf\<close> of \<open>builderoutput.go\<close>; the two messages of the rejection are those of
  \<open>TestExecWithErr\<close>.  The process is a parameter \<open>spawn\<close>: the result of running the
  configured command, and whether spawning failed.  The timing accumulators and the
  trace spans are outside this model.
\<close>

definition ExecWithErr ::
  "(string \<Rightarrow> 256 word) \<Rightarrow> int \<Rightarrow> (execParams \<Rightarrow> ExecResult \<times> bool) \<Rightarrow>
   string list \<Rightarrow> ExecOption list \<Rightarrow> panic + (ExecResult option \<times> Error option)" where
  "ExecWithErr sha256 mx spawn c opts =
     (let p = configure mx c opts in
      if c = [] then Inr (None, Some (UserErrorf sha256 ''no command provided''))
      else if list_all blank c then
        Inr (None, Some (UserErrorf sha256 ''empty command provided''))
      else
        (let (result, spawnFailed) = spawn p in
         if ExitCode result = 0 \<and> \<not> spawnFailed then Inr (Some result, None)
         else
           (case messageProducer p result of
              Inl pn \<Rightarrow> Inl pn
            | Inr message \<Rightarrow> Inr (Some result, Some (failure sha256 p message)))))"

subsection \<open>What the test of the executor accepts (exec_test.go)\<close>







definition exit99 :: "execParams \<Rightarrow> ExecResult \<times> bool" where
  \<comment> \<open>a process that exits with code 99 and prints nothing, as \<open>bash -c "exit 99"\<close>\<close>
  "exit99 p = (\<lparr>ExitCode = 99, Stdout = [], Stderr = [], Combined = []\<rparr>, False)"

section \<open>The cache of installed requirements (python.go)\<close>

text \<open>
  An instant (\<open>time.Time\<close>) is the number of nanoseconds since the zero value of the
  type, January 1 of year 1, 00:00:00 UTC; a duration is a number of nanoseconds.
\<close>

type_synonym Time = int

definition zeroTime :: Time where
  "zeroTime = 0"

definition expirationTime :: int where
  \<comment> \<open>\<open>time.Hour * 24\<close>\<close>
  "expirationTime = 24 * 3600 * 1000000000"

definition pythonVersionKey :: string where
  "pythonVersionKey = ''python_version''"

definition dependencyHashKey :: string where
  "dependencyHashKey = ''dependency_hash''"

definition expiryTimestampKey :: string where
  "expiryTimestampKey = ''expiry_timestamp''"

text \<open>
  Of a layer (\<open>libcnb.Layer\<close>) the functions use the name, the path and the
  metadata; \<open>Entries\<close> stands for the content of the layer's directory.
\<close>

record Layer =
  Name :: string
  Path :: string
  Metadata :: "string \<rightharpoonup> string"
  Entries :: "string list"

datatype cacheOption = WithFiles "string list" | WithStrings "string list"

datatype 'a outcome = Exited Error | Returned 'a

text \<open>
  The parts that are defined elsewhere are parameters, collected in a record: \<open>ctx.Exec\<close>, which returns the result of a command or ends the process with
  an error; \<open>ctx.ExecWithErr\<close>; \<open>cache.Hash\<close>, which returns the fingerprint or an
  error; \<open>time.Parse\<close> and \<open>Format\<close> for the layout \<open>time.RFC3339Nano\<close>; the
  environment variables for the runtime (\<open>env.Runtime\<close>) and \<open>PATH\<close>; the path of the
  layer \<open>ctx.Layer(cacheName, gcp.CacheLayer)\<close>.  The readings of \<open>time.Now()\<close> are
  arguments of the functions, in the order of the calls.
\<close>

record system =
  ctxExec :: "string list \<Rightarrow> ExecOption list \<Rightarrow> Error + ExecResult"
  ctxExecWithErr :: "string list \<Rightarrow> ExecOption list \<Rightarrow> ExecResult option \<times> Error option"
  cacheHash :: "cacheOption list \<Rightarrow> string + string"
  timeParse :: "string \<Rightarrow> string + Time"
  timeFormat :: "Time \<Rightarrow> string"
  runtimeEnv :: string
  pathEnv :: string
  cacheLayerPath :: string

text \<open>
  Modelled from the spec: \<open>ctx.GetMetadata\<close>, \<open>ctx.SetMetadata\<close> and \<open>ctx.ClearLayer\<close>
  are missing from the sources.  The specification (3) describes the metadata
  of a layer as a small key-value record that is read on every build and is cleared
  together with the content of the directory on a miss; a key that is not there
  reads as the empty string, which \<open>checkCache\<close> takes for "no metadata".
\<close>

definition GetMetadata :: "Layer \<Rightarrow> string \<Rightarrow> string" where
  "GetMetadata l key = (case Metadata l key of None \<Rightarrow> [] | Some v \<Rightarrow> v)"

definition SetMetadata :: "Layer \<Rightarrow> string \<Rightarrow> string \<Rightarrow> Layer" where
  "SetMetadata l key v = l\<lparr>Metadata := (Metadata l)(key \<mapsto> v)\<rparr>"

definition ClearLayer :: "Layer \<Rightarrow> Layer" where
  "ClearLayer l = l\<lparr>Metadata := Map.empty, Entries := []\<rparr>"

definition ErrorString :: "Error \<Rightarrow> string" where
  \<comment> \<open>the method \<open>Error()\<close> of \<open>*Error\<close> (builderoutput.go)\<close>
  "ErrorString e = (if ID e = [] then Message e else Message e @ '' [id:'' @ ID e @ '']'')"

definition Version :: "system \<Rightarrow> string outcome \<times> event list" where
  "Version sys =
     (case ctxExec sys [''python3'', ''--version''] [] of
        Inl e \<Rightarrow> (Exited e, [Ran [''python3'', ''--version''] []])
      | Inr result \<Rightarrow>
          (Returned (TrimSpace (Stdout result)), [Ran [''python3'', ''--version''] []]))"

definition cacheExpired :: "system \<Rightarrow> Layer \<Rightarrow> Time \<Rightarrow> Time \<Rightarrow> bool \<times> event list" where
  \<comment> \<open>\<open>now1\<close>, \<open>now2\<close>: the readings of the two calls of \<open>time.Now()\<close>;
      \<open>t.After(u)\<close> is \<open>u < t\<close>; on an error \<open>time.Parse\<close> returns the zero time\<close>
  "cacheExpired sys l now1 now2 =
     (let t = now1;
          expiry = GetMetadata l expiryTimestampKey
      in if expiry \<noteq> [] then
           (case timeParse sys expiry of
              Inl err \<Rightarrow>
                (\<not> now2 < zeroTime,
                 [Debugf ''Could not parse expiration date %q, assuming now: %v'' [expiry, err]])
            | Inr t' \<Rightarrow> (\<not> now2 < t', []))
         else (\<not> now2 < t, []))"

definition checkCache ::
  "system \<Rightarrow> Layer \<Rightarrow> cacheOption list \<Rightarrow> Time \<Rightarrow> Time \<Rightarrow> Time \<Rightarrow>
   (bool \<times> string option) outcome \<times> Layer \<times> event list" where
  "checkCache sys l opts0 now1 now2 now3 =
     (case Version sys of
        (Exited e, ev0) \<Rightarrow> (Exited e, l, ev0)
      | (Returned currentPythonVersion, ev0) \<Rightarrow>
         (let opts = opts0 @ [WithStrings [currentPythonVersion]] in
          case cacheHash sys opts of
            Inl err \<Rightarrow>
              (Returned (False, Some (''computing dependency hash: '' @ err)), l, ev0)
          | Inr currentDependencyHash \<Rightarrow>
             (let metaDependencyHash = GetMetadata l dependencyHashKey;
                  (expired, ev1) = cacheExpired sys l now1 now2;
                  ev2 = [Debugf ''Current dependency hash: %q'' [currentDependencyHash],
                         Debugf ''  Cache dependency hash: %q'' [metaDependencyHash]]
              in if currentDependencyHash = metaDependencyHash \<and> \<not> expired then
                   (Returned (True, None), l,
                    ev0 @ ev1 @ ev2 @
                    [Logf ''Dependencies cache hit, skipping installation.'' []])
                 else
                   (let ev3 = (if metaDependencyHash = [] then
                                 [Debugf ''No metadata found from a previous build, skipping cache.'' []]
                               else []);
                        l1 = ClearLayer l;
                        l2 = SetMetadata l1 dependencyHashKey currentDependencyHash;
                        l3 = SetMetadata l2 pythonVersionKey currentPythonVersion;
                        l4 = SetMetadata l3 expiryTimestampKey
                               (timeFormat sys (now3 + expirationTime))
                    in (Returned (False, None), l4,
                        ev0 @ ev1 @ ev2 @ ev3 @
                        [Logf ''Installing application dependencies.'' []])))))"

subsection \<open>InstallRequirements\<close>

definition requiresVirtualEnv :: "system \<Rightarrow> bool" where
  "requiresVirtualEnv sys = (runtimeEnv sys = ''python37'' \<or> runtimeEnv sys = ''python38'')"

definition pipInstall :: "bool \<Rightarrow> string \<Rightarrow> string list" where
  \<comment> \<open>the command line \<open>cmd\<close> of the loop over the requirements files\<close>
  "pipInstall virtualEnv req =
     [''python3'', ''-m'', ''pip'', ''install'',
      ''--requirement'', req,
      ''--upgrade'',
      ''--upgrade-strategy'', ''only-if-needed'',
      ''--no-warn-script-location'',
      ''--no-warn-conflicts'',
      ''--force-reinstall'',
      ''--no-compile'']
     @ (if \<not> virtualEnv then [''--user''] else [])"

definition pipOptions :: "string \<Rightarrow> ExecOption list" where
  "pipOptions clPath =
     [WithEnv [''PIP_CACHE_DIR='' @ clPath, ''PIP_DISABLE_PIP_VERSION_CHECK=1''],
      WithUserAttribution]"

fun installAll :: "system \<Rightarrow> bool \<Rightarrow> string \<Rightarrow> string list \<Rightarrow> Error option \<times> event list" where
  \<comment> \<open>the loop \<open>for _, req := range reqs\<close>; \<open>Some e\<close>: \<open>ctx.Exec\<close> ended the process\<close>
  "installAll sys virtualEnv clPath [] = (None, [])"
| "installAll sys virtualEnv clPath (req # reqs) =
     (case ctxExec sys (pipInstall virtualEnv req) (pipOptions clPath) of
        Inl e \<Rightarrow> (Some e, [Ran (pipInstall virtualEnv req) (pipOptions clPath)])
      | Inr result \<Rightarrow>
         (case installAll sys virtualEnv clPath reqs of
            (r, ev) \<Rightarrow> (r, Ran (pipInstall virtualEnv req) (pipOptions clPath) # ev)))"

definition venvCommand :: "Layer \<Rightarrow> string list" where
  "venvCommand l =
     [''python3'', ''-m'', ''venv'', ''--without-pip'', ''--system-site-packages'', Path l]"

definition prepareEnv :: "system \<Rightarrow> Layer \<Rightarrow> Error option \<times> event list" where
  \<comment> \<open>the block \<open>if virtualEnv { ... } else { ... }\<close>\<close>
  "prepareEnv sys l =
     (if requiresVirtualEnv sys then
        (case ctxExec sys (venvCommand l) [] of
           Inl e \<Rightarrow> (Some e, [Ran (venvCommand l) []])
         | Inr result \<Rightarrow>
            (None,
             [Ran (venvCommand l) [],
              Override ''VIRTUAL_ENV'' (Path l),
              Setenv ''PATH'' (Join (Path l) ''bin'' @ '':'' @ pathEnv sys),
              Setenv ''VIRTUAL_ENV'' (Path l)]))
      else
        (None, [Default ''PYTHONUSERBASE'' (Path l), Setenv ''PYTHONUSERBASE'' (Path l)]))"

definition compileallCommand :: "Layer \<Rightarrow> string list" where
  "compileallCommand l =
     [''python3'', ''-m'', ''compileall'', ''--invalidation-mode'', ''unchecked-hash'', ''-qq'',
      Path l]"

definition compileAll :: "system \<Rightarrow> Layer \<Rightarrow> string option \<times> event list" where
  \<comment> \<open>the call of \<open>compileall\<close> and the error that \<open>InstallRequirements\<close> returns after it\<close>
  "compileAll sys l =
     (case ctxExecWithErr sys (compileallCommand l) [WithUserAttribution] of
        (result, None) \<Rightarrow> (None, [Ran (compileallCommand l) [WithUserAttribution]])
      | (Some r, Some cerr) \<Rightarrow>
          (if ExitCode r = 1 then None else Some (''compileall: '' @ Combined r),
           [Ran (compileallCommand l) [WithUserAttribution]])
      | (None, Some cerr) \<Rightarrow>
          (Some (''compileall: '' @ ErrorString cerr),
           [Ran (compileallCommand l) [WithUserAttribution]]))"

definition installAfterMiss ::
  "system \<Rightarrow> Layer \<Rightarrow> string list \<Rightarrow> string option outcome \<times> event list" where
  \<comment> \<open>the body of \<open>InstallRequirements\<close> after \<open>ctx.CacheMiss\<close>\<close>
  "installAfterMiss sys l reqs =
     (case prepareEnv sys l of
        (Some e, ev1) \<Rightarrow> (Exited e, ev1)
      | (None, ev1) \<Rightarrow>
         (case installAll sys (requiresVirtualEnv sys) (cacheLayerPath sys) reqs of
            (Some e, ev2) \<Rightarrow> (Exited e, ev1 @ ev2)
          | (None, ev2) \<Rightarrow>
             (case compileAll sys l of
                (r, ev3) \<Rightarrow> (Returned r, ev1 @ ev2 @ ev3))))"

definition InstallRequirements ::
  "system \<Rightarrow> Layer \<Rightarrow> string list \<Rightarrow> Time \<Rightarrow> Time \<Rightarrow> Time \<Rightarrow>
   string option outcome \<times> Layer \<times> event list" where
  "InstallRequirements sys l reqs now1 now2 now3 =
     (if reqs = [] then
        (Returned None, ClearLayer l,
         [Debugf ''No requirements.txt to install, clearing layer.'' []])
      else
        (case checkCache sys l [WithFiles reqs] now1 now2 now3 of
           (Exited e, l1, ev) \<Rightarrow> (Exited e, l1, ev)
         | (Returned (cached, Some err), l1, ev) \<Rightarrow>
             (Returned (Some (''checking cache: '' @ err)), l1, ev)
         | (Returned (cached, None), l1, ev) \<Rightarrow>
             (if cached then (Returned None, l1, ev @ [CacheHit (Name l1)])
              else
                (case installAfterMiss sys l1 reqs of
                   (r, ev') \<Rightarrow> (r, l1, ev @ [CacheMiss (Name l1)] @ ev')))))"

subsection \<open>An example: a layer whose fingerprint matches and whose expiry has passed\<close>

definition exampleSystem :: system where
  \<comment> \<open>every command succeeds; the fingerprint is \<open>abc\<close>; a timestamp parses when it is
      \<open>stamp\<close>, to the instant 1000\<close>
  "exampleSystem =
     \<lparr>ctxExec = (\<lambda>c opts. Inr \<lparr>ExitCode = 0, Stdout = ''Python 3.9.1'',
                                   Stderr = [], Combined = ''Python 3.9.1''\<rparr>),
      ctxExecWithErr = (\<lambda>c opts. (Some \<lparr>ExitCode = 0, Stdout = [], Stderr = [],
                                             Combined = []\<rparr>, None)),
      cacheHash = (\<lambda>opts. Inr ''abc''),
      timeParse = (\<lambda>s. if s = ''stamp'' then Inr 1000 else Inl ''cannot parse''),
      timeFormat = (\<lambda>t. ''later''),
      runtimeEnv = ''python39'', pathEnv = ''/usr/bin'', cacheLayerPath = ''/layers/pipcache''\<rparr>"

definition staleLayer :: Layer where
  "staleLayer =
     \<lparr>Name = ''pip'', Path = ''/layers/pip'',
      Metadata = [''dependency_hash'' \<mapsto> ''abc'', ''expiry_timestamp'' \<mapsto> ''stamp''],
      Entries = [''lib'']\<rparr>"

definition unstampedLayer :: Layer where
  "unstampedLayer =
     \<lparr>Name = ''pip'', Path = ''/layers/pip'',
      Metadata = [''dependency_hash'' \<mapsto> ''abc''],
      Entries = [''lib'']\<rparr>"

definition garbledLayer :: Layer where
  "garbledLayer =
     \<lparr>Name = ''pip'', Path = ''/layers/pip'',
      Metadata = [''dependency_hash'' \<mapsto> ''abc'', ''expiry_timestamp'' \<mapsto> ''yesterday''],
      Entries = [''lib'']\<rparr>"

definition refreshed :: "system \<Rightarrow> Layer \<Rightarrow> string \<Rightarrow> string \<Rightarrow> Time \<Rightarrow> Layer" where
  \<comment> \<open>the layer that \<open>checkCache\<close> leaves on a miss\<close>
  "refreshed sys l h v now3 =
     SetMetadata (SetMetadata (SetMetadata (ClearLayer l) dependencyHashKey h)
        pythonVersionKey v) expiryTimestampKey (timeFormat sys (now3 + expirationTime))"

section \<open>Facts about trimming\<close>

lemma trimLeft_none: "leadingRune rs s = 0 \<Longrightarrow> trimLeft rs s = s"
  by (cases s) simp_all

lemma TrimSpace_unchanged:
  assumes "\<not> startsWithSpace s" and "\<not> endsWithSpace s"
  shows "TrimSpace s = s"
proof -
  from assms(1) have "TrimLeftSpace s = s"
    by (simp add: startsWithSpace_def TrimLeftSpace_def trimLeft_none)
  moreover from assms(2) have "TrimRightSpace s = s"
    by (simp add: endsWithSpace_def TrimRightSpace_def trimLeft_none)
  ultimately show ?thesis
    by (simp add: TrimSpace_def)
qed

lemma keepTail_long:
  assumes "3 \<le> mx" and "mx < int (length (TrimSpace M))"
  shows "keepTail mx M =
           Inr (''...'' @ drop (length (TrimSpace M) - nat (mx - 3)) (TrimSpace M))"
proof -
  let ?T = "TrimSpace M"
  have idx: "nat (int (length ?T) - mx + 3) = length ?T - nat (mx - 3)"
    using assms by linarith
  have "sliceFrom ?T (int (length ?T) - mx + 3) = Inr (drop (length ?T - nat (mx - 3)) ?T)"
    using assms by (simp add: sliceFrom_def idx)
  with assms(2) show ?thesis
    by (simp add: keepTail_def Let_def)
qed

lemma keepHead_long:
  assumes "3 \<le> mx" and "mx < int (length (TrimSpace M))"
  shows "keepHead mx M = Inr (take (nat (mx - 3)) (TrimSpace M) @ ''...'')"
proof -
  have "sliceTo (TrimSpace M) (mx - 3) = Inr (take (nat (mx - 3)) (TrimSpace M))"
    using assms by (simp add: sliceTo_def)
  with assms(2) show ?thesis
    by (simp add: keepHead_def Let_def)
qed

lemma keepTail_short:
  "int (length (TrimSpace M)) \<le> mx \<Longrightarrow> keepTail mx M = Inr (TrimSpace M)"
  by (simp add: keepTail_def Let_def)

lemma keepHead_short:
  "int (length (TrimSpace M)) \<le> mx \<Longrightarrow> keepHead mx M = Inr (TrimSpace M)"
  by (simp add: keepHead_def Let_def)

section \<open>Truncation keeps the budget\<close>

text \<open>
  C1 (as the code has it).  Both functions first strip surrounding white space from
  the message; write \<open>T\<close> for the stripped message.  With a budget of at least 3 bytes:
  when \<open>T\<close> is longer than the budget, \<open>keepTail\<close> returns exactly \<open>maxMessageBytes\<close>
  bytes, the marker \<open>...\<close> followed by the last \<open>maxMessageBytes - 3\<close> bytes of \<open>T\<close>, and
  \<open>keepHead\<close> returns exactly \<open>maxMessageBytes\<close> bytes, the first
  \<open>maxMessageBytes - 3\<close> bytes of \<open>T\<close> followed by \<open>...\<close>; when \<open>T\<close> fits the budget,
  both return \<open>T\<close>, which is the message itself whenever the message neither starts
  nor ends with white space.
\<close>

theorem keepTail_keepHead_trimmed:
  assumes "3 \<le> mx"
  shows
    "(mx < int (length (TrimSpace M)) \<longrightarrow>
        (\<exists>t h. keepTail mx M = Inr t \<and> keepHead mx M = Inr h
           \<and> int (length t) = mx \<and> int (length h) = mx
           \<and> t = ''...'' @ drop (length (TrimSpace M) - nat (mx - 3)) (TrimSpace M)
           \<and> h = take (nat (mx - 3)) (TrimSpace M) @ ''...''))
     \<and> (int (length (TrimSpace M)) \<le> mx \<longrightarrow>
          keepTail mx M = Inr (TrimSpace M) \<and> keepHead mx M = Inr (TrimSpace M))
     \<and> (\<not> startsWithSpace M \<and> \<not> endsWithSpace M \<longrightarrow> TrimSpace M = M)"
proof (intro conjI impI)
  assume long: "mx < int (length (TrimSpace M))"
  let ?T = "TrimSpace M"
  let ?t = "''...'' @ drop (length ?T - nat (mx - 3)) ?T"
  let ?h = "take (nat (mx - 3)) ?T @ ''...''"
  have lt: "int (length ?t) = mx"
    using assms long by auto
  have lh: "int (length ?h) = mx"
    using assms long by auto
  from keepTail_long [OF assms long] keepHead_long [OF assms long] lt lh
  show "\<exists>t h. keepTail mx M = Inr t \<and> keepHead mx M = Inr h
           \<and> int (length t) = mx \<and> int (length h) = mx
           \<and> t = ''...'' @ drop (length ?T - nat (mx - 3)) ?T
           \<and> h = take (nat (mx - 3)) ?T @ ''...''"
    by blast
next
  assume "int (length (TrimSpace M)) \<le> mx"
  then show "keepTail mx M = Inr (TrimSpace M)" by (rule keepTail_short)
next
  assume "int (length (TrimSpace M)) \<le> mx"
  then show "keepHead mx M = Inr (TrimSpace M)" by (rule keepHead_short)
next
  assume "\<not> startsWithSpace M \<and> \<not> endsWithSpace M"
  then show "TrimSpace M = M" by (simp add: TrimSpace_unchanged)
qed

theorem keepTail_keepHead_trimmed_witness:
  "(3::int) \<le> 8
   \<and> keepTail 8 ''12345678901234567890'' = Inr ''...67890''
   \<and> keepHead 8 ''12345678901234567890'' = Inr ''12345...''
   \<and> keepTail 8 ''123'' = Inr ''123'' \<and> keepHead 8 ''123'' = Inr ''123''"
proof -
  have T1: "TrimSpace ''12345678901234567890'' = ''12345678901234567890''"
    by (simp add: TrimSpace_def TrimLeftSpace_def TrimRightSpace_def spaceRunes_def)
  have T2: "TrimSpace ''123'' = ''123''"
    using keepTail_keepHead_trimmed [of 8 "''123''"]
    by (simp add: startsWithSpace_def endsWithSpace_def spaceRunes_def)
  show ?thesis
    using keepTail_keepHead_trimmed [of 8 "''12345678901234567890''"]
      keepTail_keepHead_trimmed [of 8 "''123''"]
    by (simp add: T1 T2)
qed

text \<open>
  As C1 is worded, the functions would return a message within the budget unchanged
  and cut every longer message to exactly the budget.  With a budget of 8 bytes the
  2-byte message \<open>" a"\<close> comes back as \<open>"a"\<close>, and the 9-byte message \<open>"1234567  "\<close>
  comes back 7 bytes long.
\<close>

theorem keepTail_keepHead_identity_counterexample:
  "int (length '' a'') \<le> 8 \<and> keepTail 8 '' a'' = Inr ''a'' \<and> keepHead 8 '' a'' = Inr ''a''
   \<and> 8 < int (length ''1234567  '') \<and> keepTail 8 ''1234567  '' = Inr ''1234567''
   \<and> keepHead 8 ''1234567  '' = Inr ''1234567''"
  by (simp add: keepTail_def keepHead_def TrimSpace_def TrimLeftSpace_def
      TrimRightSpace_def spaceRunes_def)

section \<open>Facts about strings in JSON\<close>

lemma jsonString_valid: "ValidString s \<Longrightarrow> jsonString s = s"
proof (induction s rule: jsonString.induct)
  case 1
  show ?case by simp
next
  case (2 c cs)
  show ?case
  proof (cases "runeLen (c # cs)")
    case 0
    with "2.prems" show ?thesis by simp
  next
    case (Suc k)
    with "2.prems" have "ValidString (drop k cs)" by simp
    with "2.IH"(2) [OF Suc] have "jsonString (drop k cs) = drop k cs" by simp
    with Suc show ?thesis by simp
  qed
qed

lemma ValidString_ascii: "\<forall>c \<in> set s. (of_char c :: nat) < 0x80 \<Longrightarrow> ValidString s"
  by (induction s) (simp_all add: Let_def)

lemma hexDigit_mem: "n < 16 \<Longrightarrow> hexDigit n \<in> set ''0123456789abcdef''"
  unfolding hexDigit_def by (rule nth_mem) simp

lemma nibble_less: "unat (take_bit 4 (d :: 256 word)) < 16"
proof -
  have "take_bit 4 (unat d) < 2 ^ 4"
    by (rule take_bit_nat_less_exp)
  then show ?thesis
    by (simp add: unsigned_take_bit_eq)
qed

lemma Sprintf_x_digits: "set (Sprintf_x d) \<subseteq> set ''0123456789abcdef''"
  unfolding Sprintf_x_def using hexDigit_mem [OF nibble_less] by auto

lemma generateErrorID_digits:
  "set (generateErrorID sha256 parts) \<subseteq> set ''0123456789abcdef''"
proof -
  let ?r = "take errorIDLength (Sprintf_x (sha256 (concat parts)))"
  have sub: "set ?r \<subseteq> set ''0123456789abcdef''"
    using Sprintf_x_digits set_take_subset by fastforce
  have "ToLower ?r = ?r"
    unfolding ToLower_def
  proof (rule map_idI)
    fix c
    assume "c \<in> set ?r"
    with sub have "c \<in> set ''0123456789abcdef''" by blast
    then show "(if (65::nat) \<le> of_char c \<and> (of_char c :: nat) \<le> 90
                then char_of ((of_char c :: nat) + 32) else c) = c"
      by auto
  qed
  with sub show ?thesis
    by (simp add: generateErrorID_def Let_def)
qed

lemma jsonString_generateErrorID:
  "jsonString (generateErrorID sha256 parts) = generateErrorID sha256 parts"
proof (rule jsonString_valid, rule ValidString_ascii, rule ballI)
  fix c
  assume "c \<in> set (generateErrorID sha256 parts)"
  with generateErrorID_digits have "c \<in> set ''0123456789abcdef''" by blast
  then show "(of_char c :: nat) < 0x80" by auto
qed

section \<open>Facts about saving the error\<close>

lemma keepTail_returns: "3 \<le> mx \<Longrightarrow> \<exists>t. keepTail mx M = Inr t"
  using keepTail_long [of mx M] keepTail_short [of M mx]
  by (cases "mx < int (length (TrimSpace M))") auto

lemma keepHead_returns: "3 \<le> mx \<Longrightarrow> \<exists>h. keepHead mx M = Inr h"
  using keepHead_long [of mx M] keepHead_short [of M mx]
  by (cases "mx < int (length (TrimSpace M))") auto

lemma tempName_neq_outputName: "tempName w \<noteq> outputName w"
  by (simp add: tempName_def outputName_def Join_def builderOutputFilename_def)

lemma saveErrorOutput_ok:
  assumes dir: "BUILDER_OUTPUT w \<noteq> []"
    and tr: "(if int (length (Message be)) > mx then keepTail mx (Message be)
              else Inr (Message be)) = Inr m"
    and ok: "marshalErr w = None" "mkdirErr w = None" "writeErr w (tempName w) = None"
      "mvErr w = None"
  shows "\<exists>w'. saveErrorOutput mx ctx be w =
           Inr (be\<lparr>Message := m, BuildpackID := buildpackID ctx,
                     BuildpackVersion := buildpackVersion ctx\<rparr>, w', [])
      \<and> files w' (outputName w) =
          Some (Marshal \<lparr>Error = be\<lparr>Message := m, BuildpackID := buildpackID ctx,
                                      BuildpackVersion := buildpackVersion ctx\<rparr>,
                         Stats = []\<rparr>)"
  using dir ok tempName_neq_outputName [of w]
  unfolding saveErrorOutput_def Let_def tr tempName_def outputName_def
  by simp

lemma generateErrorID_zeroDigest: "generateErrorID zeroDigest parts = ''00000000''"
  unfolding generateErrorID_def zeroDigest_def Let_def by code_simp

lemma tempName_exampleWorld: "tempName exampleWorld = ''/out/output-7''"
  unfolding tempName_def exampleWorld_def by code_simp

lemma outputName_exampleWorld: "outputName exampleWorld = ''/out/output''"
  by (simp add: outputName_def exampleWorld_def Join_def builderOutputFilename_def)

lemma exampleWorld_sound:
  "BUILDER_OUTPUT exampleWorld \<noteq> []" "marshalErr exampleWorld = None"
  "mkdirErr exampleWorld = None" "writeErr exampleWorld (tempName exampleWorld) = None"
  "mvErr exampleWorld = None"
  by (simp_all add: exampleWorld_def)

lemma keepTail_long_message:
  "keepTail 8 ''This is a long message that will be truncated.'' = Inr ''...ated.''"
  by (simp add: keepTail_def sliceFrom_def TrimSpace_def TrimLeftSpace_def
      TrimRightSpace_def spaceRunes_def)

lemma keepTail_cutMessage: "keepTail 8 cutMessage = Inr (''...'' @ [CHR 0xB6] @ ''abcd'')"
  by (simp add: cutMessage_def keepTail_def sliceFrom_def TrimSpace_def TrimLeftSpace_def
      TrimRightSpace_def spaceRunes_def)

section \<open>The identifier is that of the full message\<close>

text \<open>
  C2 (as the code has it).  \<open>Errorf\<close> computes the identifier from the whole message
  and keeps the whole message.  When the output directory is set, the budget is at
  least 3 bytes and no operation fails, \<open>saveErrorOutput\<close> does not compute the
  identifier again.  It puts \<open>t\<close> in the place of the message, where \<open>t\<close> is
  \<open>keepTail\<close> of the message when the message is longer than \<open>maxMessageBytes\<close> and
  the message itself otherwise: in the error of the caller, which it changes in
  place, and in the document.  The document at the output path then has the
  \<open>errorId\<close> \<open>generateErrorID\<close> of the whole message, and its \<open>errorMessage\<close> is \<open>t\<close>
  as JSON holds it: with each byte that is not part of a valid UTF-8 encoding
  replaced by U+FFFD, hence \<open>t\<close> itself when \<open>t\<close> is valid UTF-8.
\<close>

theorem saveErrorOutput_keeps_errorId:
  assumes "3 \<le> mx" and "BUILDER_OUTPUT w \<noteq> []"
    and "marshalErr w = None" and "mkdirErr w = None"
    and "writeErr w (tempName w) = None" and "mvErr w = None"
  shows "ID (Errorf sha256 status msg) = generateErrorID sha256 [msg]
     \<and> Message (Errorf sha256 status msg) = msg
     \<and> (\<exists>t w' doc.
           (if mx < int (length msg) then keepTail mx msg else Inr msg) = Inr t
         \<and> saveErrorOutput mx ctx (Errorf sha256 status msg) w =
             Inr ((Errorf sha256 status msg)
                    \<lparr>Message := t, BuildpackID := buildpackID ctx,
                      BuildpackVersion := buildpackVersion ctx\<rparr>, w', [])
         \<and> files w' (outputName w) = Some (JSON doc)
         \<and> ID (Error doc) = generateErrorID sha256 [msg]
         \<and> Message (Error doc) = jsonString t
         \<and> (ValidString t \<longrightarrow> Message (Error doc) = t))"
proof -
  let ?be = "Errorf sha256 status msg"
  have msg: "Message ?be = msg" and id: "ID ?be = generateErrorID sha256 [msg]"
    by (simp_all add: Errorf_def)
  obtain t where tr0: "(if mx < int (length msg) then keepTail mx msg else Inr msg) = Inr t"
    using keepTail_returns [OF assms(1), of msg] by (cases "mx < int (length msg)") auto
  then have tr: "(if int (length (Message ?be)) > mx then keepTail mx (Message ?be)
              else Inr (Message ?be)) = Inr t"
    by (simp only: msg)
  let ?be1 = "?be\<lparr>Message := t, BuildpackID := buildpackID ctx,
                     BuildpackVersion := buildpackVersion ctx\<rparr>"
  let ?doc = "\<lparr>Error = jsonError ?be1, Stats = []\<rparr>"
  from saveErrorOutput_ok [OF assms(2) tr assms(3-6), of ctx]
  obtain w' where run: "saveErrorOutput mx ctx ?be w = Inr (?be1, w', [])"
    and written: "files w' (outputName w) = Some (JSON ?doc)"
    by (auto simp add: Marshal_def)
  have "ID (Error ?doc) = generateErrorID sha256 [msg]"
    by (simp add: jsonError_def id jsonString_generateErrorID)
  moreover have m: "Message (Error ?doc) = jsonString t"
    by (simp add: jsonError_def)
  moreover have "ValidString t \<longrightarrow> Message (Error ?doc) = t"
    using m by (simp add: jsonString_valid)
  ultimately show ?thesis
    using tr0 run written msg id by blast
qed

theorem saveErrorOutput_keeps_errorId_witness:
  "(3::int) \<le> 8 \<and> BUILDER_OUTPUT exampleWorld \<noteq> []
   \<and> marshalErr exampleWorld = None \<and> mkdirErr exampleWorld = None
   \<and> writeErr exampleWorld (tempName exampleWorld) = None \<and> mvErr exampleWorld = None
   \<and> ValidString ''...ated.''
   \<and> ID (Errorf lengthDigest StatusInternal ''This is a long message that will be truncated.'')
       = ''0000002e''
   \<and> generateErrorID lengthDigest [''...ated.''] = ''00000008''
   \<and> persistedID
        (saveErrorOutput 8 exampleContext
           (Errorf lengthDigest StatusInternal ''This is a long message that will be truncated.'')
           exampleWorld) ''/out/output'' = Some ''0000002e''
   \<and> persistedMessage
        (saveErrorOutput 8 exampleContext
           (Errorf lengthDigest StatusInternal ''This is a long message that will be truncated.'')
           exampleWorld) ''/out/output'' = Some ''...ated.''"
proof -
  let ?msg = "''This is a long message that will be truncated.''"
  have mx: "(3::int) \<le> 8" by simp
  have valid: "ValidString ''...ated.''"
    by (simp add: Let_def)
  have id1: "generateErrorID lengthDigest [?msg] = ''0000002e''"
    unfolding generateErrorID_def lengthDigest_def Let_def by code_simp
  have id2: "generateErrorID lengthDigest [''...ated.''] = ''00000008''"
    unfolding generateErrorID_def lengthDigest_def Let_def by code_simp
  from saveErrorOutput_keeps_errorId [OF mx exampleWorld_sound,
      of lengthDigest StatusInternal ?msg exampleContext]
  obtain t w' doc where t: "keepTail 8 ?msg = Inr t"
    and run: "saveErrorOutput 8 exampleContext (Errorf lengthDigest StatusInternal ?msg)
        exampleWorld =
          Inr ((Errorf lengthDigest StatusInternal ?msg)
                 \<lparr>Message := t, BuildpackID := buildpackID exampleContext,
                   BuildpackVersion := buildpackVersion exampleContext\<rparr>, w', [])"
    and written: "files w' (outputName exampleWorld) = Some (JSON doc)"
    and id: "ID (Error doc) = generateErrorID lengthDigest [?msg]"
    and m: "ValidString t \<longrightarrow> Message (Error doc) = t"
    and id0: "ID (Errorf lengthDigest StatusInternal ?msg) = generateErrorID lengthDigest [?msg]"
    by auto
  from t have t': "t = ''...ated.''"
    by (simp add: keepTail_long_message)
  from written have doc: "savedDocument (saveErrorOutput 8 exampleContext
      (Errorf lengthDigest StatusInternal ?msg) exampleWorld) ''/out/output'' = Some doc"
    by (simp add: run savedDocument_def outputName_exampleWorld)
  from doc id id1 have p1: "persistedID (saveErrorOutput 8 exampleContext
      (Errorf lengthDigest StatusInternal ?msg) exampleWorld) ''/out/output'' = Some ''0000002e''"
    by (simp add: persistedID_def)
  from doc m valid t' have p2: "persistedMessage (saveErrorOutput 8 exampleContext
      (Errorf lengthDigest StatusInternal ?msg) exampleWorld) ''/out/output'' = Some ''...ated.''"
    by (simp add: persistedMessage_def)
  from mx exampleWorld_sound valid id0 id1 id2 p1 p2 show ?thesis
    by simp
qed

text \<open>
  As C2 is worded, only the persisted message would be truncated, and the persisted
  message would be the tail of the message.  With a budget of 8 bytes, the 9-byte
  message \<open>cutMessage\<close> is cut inside the two bytes of a character: its tail begins
  with the byte B6, and the document holds the three bytes of U+FFFD in its place.
  And after saving the 46-byte message of \<open>TestSaveErrorOutput\<close> the error of the
  caller has the message \<open>...ated.\<close> too.
\<close>

theorem saveErrorOutput_truncation_counterexample:
  "keepTail 8 cutMessage = Inr (''...'' @ [CHR 0xB6] @ ''abcd'')
   \<and> persistedMessage
        (saveErrorOutput 8 exampleContext (Errorf lengthDigest StatusInternal cutMessage)
           exampleWorld) ''/out/output''
       = Some (''...'' @ [CHR 0xEF, CHR 0xBF, CHR 0xBD] @ ''abcd'')
   \<and> callerMessage
        (saveErrorOutput 8 exampleContext
           (Errorf lengthDigest StatusInternal ''This is a long message that will be truncated.'')
           exampleWorld) = Some ''...ated.''"
proof -
  let ?msg = "''This is a long message that will be truncated.''"
  have tr1: "(if int (length (Message (Errorf lengthDigest StatusInternal cutMessage))) > 8
              then keepTail 8 (Message (Errorf lengthDigest StatusInternal cutMessage))
              else Inr (Message (Errorf lengthDigest StatusInternal cutMessage)))
             = Inr (''...'' @ [CHR 0xB6] @ ''abcd'')"
    by (simp add: Errorf_def keepTail_cutMessage) (simp add: cutMessage_def)
  have tr2: "(if int (length (Message (Errorf lengthDigest StatusInternal ?msg))) > 8
              then keepTail 8 (Message (Errorf lengthDigest StatusInternal ?msg))
              else Inr (Message (Errorf lengthDigest StatusInternal ?msg)))
             = Inr ''...ated.''"
    by (simp add: Errorf_def keepTail_long_message)
  have js: "jsonString (''...'' @ [CHR 0xB6] @ ''abcd'')
              = ''...'' @ [CHR 0xEF, CHR 0xBF, CHR 0xBD] @ ''abcd''"
    by (simp add: Let_def)
  from saveErrorOutput_ok [OF exampleWorld_sound(1) tr1 exampleWorld_sound(2-5),
      of exampleContext]
  have c1: "persistedMessage
        (saveErrorOutput 8 exampleContext (Errorf lengthDigest StatusInternal cutMessage)
           exampleWorld) ''/out/output''
       = Some (''...'' @ [CHR 0xEF, CHR 0xBF, CHR 0xBD] @ ''abcd'')"
    using js
    by (auto simp add: persistedMessage_def savedDocument_def outputName_exampleWorld
        Marshal_def jsonError_def)
  from saveErrorOutput_ok [OF exampleWorld_sound(1) tr2 exampleWorld_sound(2-5),
      of exampleContext]
  have c2: "callerMessage
        (saveErrorOutput 8 exampleContext (Errorf lengthDigest StatusInternal ?msg)
           exampleWorld) = Some ''...ated.''"
    by (auto simp add: callerMessage_def savedError_def)
  from keepTail_cutMessage c1 c2 show ?thesis
    by simp
qed

section \<open>Facts about saving the statistics\<close>


lemma saveErrorOutput_fault:
  assumes dir: "BUILDER_OUTPUT w \<noteq> []"
    and tr: "(if int (length (Message be)) > mx then keepTail mx (Message be)
              else Inr (Message be)) = Inr m"
    and fault: "errorOutputFault w"
  shows "\<exists>w' f args. saveErrorOutput mx ctx be w =
           Inr (be\<lparr>Message := m, BuildpackID := buildpackID ctx,
                     BuildpackVersion := buildpackVersion ctx\<rparr>, w', [Warnf f args])
      \<and> files w' (outputName w) = files w (outputName w)"
  using dir fault tempName_neq_outputName [of w]
  unfolding saveErrorOutput_def Let_def tr tempName_def outputName_def errorOutputFault_def
  by (auto split: option.splits)

lemma saveSuccessOutput_fault:
  assumes dir: "BUILDER_OUTPUT w \<noteq> []" and fault: "successOutputFault w"
  shows "\<exists>f args. saveSuccessOutput ctx duration w = (w, [Warnf f args])"
  using dir fault
  unfolding saveSuccessOutput_def Let_def outputName_def successOutputFault_def readOutput_def
  by (auto split: option.splits sum.splits)

section \<open>The warnings of the context are not saved\<close>

text \<open>
  C3.  \<open>TestSaveBuilderSuccessOutput\<close>, case "no file warnings", sets \<open>ctx.warnings\<close>
  to one warning and expects it in the field \<open>Warnings\<close> of the document.  The
  function \<open>saveSuccessOutput\<close> does not read \<open>ctx.warnings\<close>, and \<open>builderOutput\<close> has
  no such field: run on that input, it writes a document holding the statistics
  entry and nothing else.
\<close>

theorem saveSuccessOutput_no_file_warnings:
  "warnings exampleContext = [''Test warning about a conflicting file.'']
   \<and> saveSuccessOutput exampleContext 30000000000 exampleWorld =
       (exampleWorld\<lparr>files :=
          [''/out/output'' \<mapsto>
             JSON \<lparr>Error = zeroError,
                   Stats = [\<lparr>statBuildpackID = ''my-id'', statBuildpackVersion = ''my-version'',
                             DurationMs = 30000, UserDurationMs = 5000\<rparr>]\<rparr>]\<rparr>,
        [])"
  by (simp add: saveSuccessOutput_def exampleContext_def exampleWorld_def Let_def
      readOutput_def FileExists_def zeroOutput_def Join_def builderOutputFilename_def
      Milliseconds_def)

section \<open>Appending the statistics entry\<close>



section \<open>Failures of saving are warnings\<close>

text \<open>
  C8.  With the output directory set and a budget of at least 3 bytes, both functions
  return, whatever the operations do.  \<open>saveErrorOutput\<close> leaves the kind, the status
  and the identifier of the error as they were.  When marshalling, creating the
  directory, writing the file or moving it fails, \<open>saveErrorOutput\<close> logs one warning
  and the output document is the one that was there before; when marshalling,
  creating the directory or writing fails, \<open>saveSuccessOutput\<close> logs one warning and
  changes nothing.
\<close>

theorem persistence_failures_are_warnings:
  assumes "3 \<le> mx" and "BUILDER_OUTPUT w \<noteq> []"
  shows "(\<exists>be' w' evs. saveErrorOutput mx ctx be w = Inr (be', w', evs)
            \<and> Type be' = Type be \<and> Status be' = Status be \<and> ID be' = ID be
            \<and> (errorOutputFault w \<longrightarrow>
                  (\<exists>f args. evs = [Warnf f args])
                  \<and> files w' (outputName w) = files w (outputName w)))
       \<and> (\<exists>w' evs. saveSuccessOutput ctx duration w = (w', evs)
            \<and> (successOutputFault w \<longrightarrow> w' = w \<and> (\<exists>f args. evs = [Warnf f args])))"
proof
  obtain m where tr: "(if int (length (Message be)) > mx then keepTail mx (Message be)
              else Inr (Message be)) = Inr m"
    using keepTail_returns [OF assms(1), of "Message be"]
    by (cases "mx < int (length (Message be))") auto
  let ?be' = "be\<lparr>Message := m, BuildpackID := buildpackID ctx,
                     BuildpackVersion := buildpackVersion ctx\<rparr>"
  have same: "Type ?be' = Type be \<and> Status ?be' = Status be \<and> ID ?be' = ID be"
    by simp
  show "\<exists>be' w' evs. saveErrorOutput mx ctx be w = Inr (be', w', evs)
            \<and> Type be' = Type be \<and> Status be' = Status be \<and> ID be' = ID be
            \<and> (errorOutputFault w \<longrightarrow>
                  (\<exists>f args. evs = [Warnf f args])
                  \<and> files w' (outputName w) = files w (outputName w))"
  proof (cases "errorOutputFault w")
    case True
    from saveErrorOutput_fault [OF assms(2) tr True, of ctx] same
    show ?thesis by fastforce
  next
    case False
    then have "marshalErr w = None" "mkdirErr w = None" "writeErr w (tempName w) = None"
      "mvErr w = None"
      by (simp_all add: errorOutputFault_def)
    from saveErrorOutput_ok [OF assms(2) tr this, of ctx] same False
    show ?thesis by fastforce
  qed
next
  show "\<exists>w' evs. saveSuccessOutput ctx duration w = (w', evs)
            \<and> (successOutputFault w \<longrightarrow> w' = w \<and> (\<exists>f args. evs = [Warnf f args]))"
  proof (cases "successOutputFault w")
    case True
    from saveSuccessOutput_fault [OF assms(2) True, of ctx duration]
    show ?thesis by auto
  next
    case False
    then show ?thesis by (cases "saveSuccessOutput ctx duration w") simp
  qed
qed

theorem persistence_failures_are_warnings_witness:
  "(3::int) \<le> 8 \<and> BUILDER_OUTPUT faultyWorld \<noteq> []
   \<and> errorOutputFault faultyWorld \<and> successOutputFault faultyWorld
   \<and> (\<exists>be' w'. saveErrorOutput 8 exampleContext (Errorf zeroDigest StatusInternal ''boom'')
          faultyWorld =
            Inr (be', w',
              [Warnf ''Failed to create dir %s, skipping structured error output: %v''
                 [''/out'', ''permission denied'']])
        \<and> Status be' = StatusInternal \<and> ID be' = ''00000000'' \<and> files w' ''/out/output'' = None)
   \<and> saveSuccessOutput exampleContext 30000000000 faultyWorld =
       (faultyWorld,
        [Warnf ''Failed to create dir %s, skipping statistics: %v''
           [''/out'', ''permission denied'']])"
proof -
  have hyps: "(3::int) \<le> 8" "BUILDER_OUTPUT faultyWorld \<noteq> []"
    by (simp_all add: faultyWorld_def exampleWorld_def)
  have faults: "errorOutputFault faultyWorld" "successOutputFault faultyWorld"
    by (simp_all add: errorOutputFault_def successOutputFault_def faultyWorld_def)
  have run1: "saveErrorOutput 8 exampleContext (Errorf zeroDigest StatusInternal ''boom'')
          faultyWorld =
            Inr ((Errorf zeroDigest StatusInternal ''boom'')
                   \<lparr>Message := ''boom'', BuildpackID := ''my-id'',
                     BuildpackVersion := ''my-version''\<rparr>, faultyWorld,
              [Warnf ''Failed to create dir %s, skipping structured error output: %v''
                 [''/out'', ''permission denied'']])"
    by (simp add: saveErrorOutput_def faultyWorld_def exampleWorld_def exampleContext_def
        Errorf_def Let_def)
  have run2: "saveSuccessOutput exampleContext 30000000000 faultyWorld =
       (faultyWorld,
        [Warnf ''Failed to create dir %s, skipping statistics: %v''
           [''/out'', ''permission denied'']])"
    by (simp add: saveSuccessOutput_def faultyWorld_def exampleWorld_def Let_def
        readOutput_def FileExists_def)
  have nofile: "files faultyWorld ''/out/output'' = None"
    by (simp add: faultyWorld_def exampleWorld_def)
  from persistence_failures_are_warnings [OF hyps, of exampleContext
      "Errorf zeroDigest StatusInternal ''boom''" 30000000000]
  show ?thesis
    using hyps faults run1 run2 nofile
    by (simp add: Errorf_def generateErrorID_zeroDigest)
qed

section \<open>Facts about the executor\<close>

lemma failure_fields:
  "Message (failure sha256 p m) = m"
  "Status (failure sha256 p m) = (if userFailure p then StatusUnknown else StatusInternal)"
  "Type (failure sha256 p m) = (if userFailure p then StatusUnknown else StatusInternal)"
  "ID (failure sha256 p m) = generateErrorID sha256 [m]"
  by (simp_all add: failure_def UserErrorf_def Errorf_def)

lemma ExecWithErr_fails:
  assumes "c \<noteq> []" and "\<not> list_all blank c"
    and "spawn (configure mx c opts) = (result, spawnFailed)"
    and "ExitCode result \<noteq> 0 \<or> spawnFailed"
    and "messageProducer (configure mx c opts) result = Inr message"
  shows "ExecWithErr sha256 mx spawn c opts =
     Inr (Some result, Some (failure sha256 (configure mx c opts) message))"
  using assms by (auto simp add: ExecWithErr_def Let_def)

lemma userFailure_foldl:
  "userFailure (foldl (applyOption mx) p opts) =
     (userFailure p \<or> WithUserFailureAttribution \<in> set opts \<or> WithUserAttribution \<in> set opts)"
proof (induction opts arbitrary: p)
  case Nil
  show ?case by simp
next
  case (Cons a opts)
  show ?case
    by (cases a) (auto simp add: Cons.IH)
qed

lemma userFailure_configure:
  "userFailure (configure mx c opts) =
     (WithUserFailureAttribution \<in> set opts \<or> WithUserAttribution \<in> set opts)"
  by (simp add: configure_def userFailure_foldl)

lemma messageProducer_foldl:
  assumes "3 \<le> mx"
    and "\<forall>r. \<exists>m. messageProducer p r = Inr m"
    and "\<forall>f r. WithMessageProducer f \<in> set opts \<longrightarrow> (\<exists>m. f r = Inr m)"
  shows "\<forall>r. \<exists>m. messageProducer (foldl (applyOption mx) p opts) r = Inr m"
  using assms(2,3)
proof (induction opts arbitrary: p)
  case Nil
  then show ?case by simp
next
  case (Cons a opts)
  have "\<forall>r. \<exists>m. messageProducer (applyOption mx p a) r = Inr m"
    using Cons.prems keepTail_returns [OF assms(1)] keepHead_returns [OF assms(1)]
    by (cases a)
      (auto simp add: KeepStdoutTail_def KeepStderrTail_def KeepCombinedTail_def
        KeepStdoutHead_def KeepStderrHead_def KeepCombinedHead_def)
  moreover have "\<forall>f r. WithMessageProducer f \<in> set opts \<longrightarrow> (\<exists>m. f r = Inr m)"
    using Cons.prems(2) by simp
  ultimately show ?case
    using Cons.IH [of "applyOption mx p a"] by simp
qed

lemma messageProducer_configure:
  assumes "3 \<le> mx"
    and "\<forall>f r. WithMessageProducer f \<in> set opts \<longrightarrow> (\<exists>m. f r = Inr m)"
  shows "\<exists>m. messageProducer (configure mx c opts) r = Inr m"
proof -
  have "\<forall>r. \<exists>m. messageProducer
      \<lparr>cmd = c, env = [], dir = [], userTiming = False, userFailure = False,
       messageProducer = KeepCombinedTail mx\<rparr> r = Inr m"
    using keepTail_returns [OF assms(1)] by (simp add: KeepCombinedTail_def)
  from messageProducer_foldl [OF assms(1) this assms(2)] show ?thesis
    by (simp add: configure_def)
qed

section \<open>Attribution of a failed command\<close>

text \<open>
  C5.  Let a command line that is not rejected run a process that exits with code
  99, under any list of options, with a budget of at least 3 bytes and custom
  message producers that return.  Then \<open>ExecWithErr\<close> returns the result, whose exit
  code is 99, and an error with the message of the configured producer.  When the
  options include \<open>WithUserFailureAttribution\<close> or \<open>WithUserAttribution\<close>, the error
  is the one \<open>UserErrorf\<close> builds: its status is \<open>StatusUnknown\<close>, caller-caused.
  Otherwise (no option, or options such as \<open>WithUserTimingAttribution\<close> and
  \<open>WithEnv\<close> only) it is the one \<open>InternalErrorf\<close> builds: its status is
  \<open>StatusInternal\<close>, runtime-caused.
\<close>

theorem ExecWithErr_exit_99:
  assumes "3 \<le> mx" and "c \<noteq> []" and "\<not> list_all blank c"
    and "\<forall>p. ExitCode (fst (spawn p)) = 99"
    and "\<forall>f r. WithMessageProducer f \<in> set opts \<longrightarrow> (\<exists>m. f r = Inr m)"
  shows "\<exists>result e m.
       ExecWithErr sha256 mx spawn c opts = Inr (Some result, Some e)
     \<and> ExitCode result = 99
     \<and> messageProducer (configure mx c opts) result = Inr m
     \<and> e = (if WithUserFailureAttribution \<in> set opts \<or> WithUserAttribution \<in> set opts
            then UserErrorf sha256 m else InternalErrorf sha256 m)
     \<and> Status e = (if WithUserFailureAttribution \<in> set opts \<or> WithUserAttribution \<in> set opts
                   then StatusUnknown else StatusInternal)"
proof -
  let ?p = "configure mx c opts"
  obtain result spawnFailed where sp: "spawn ?p = (result, spawnFailed)"
    by (cases "spawn ?p")
  with assms(4) have code: "ExitCode result = 99"
    by (metis fst_conv)
  then have nz: "ExitCode result \<noteq> 0 \<or> spawnFailed"
    by simp
  obtain m where mp: "messageProducer ?p result = Inr m"
    using messageProducer_configure [OF assms(1,5)] by blast
  have run: "ExecWithErr sha256 mx spawn c opts = Inr (Some result, Some (failure sha256 ?p m))"
    using assms(2,3) sp nz mp by (rule ExecWithErr_fails)
  have e: "failure sha256 ?p m =
      (if WithUserFailureAttribution \<in> set opts \<or> WithUserAttribution \<in> set opts
       then UserErrorf sha256 m else InternalErrorf sha256 m)"
    by (simp add: failure_def userFailure_configure InternalErrorf_def)
  have st: "Status (failure sha256 ?p m) =
      (if WithUserFailureAttribution \<in> set opts \<or> WithUserAttribution \<in> set opts
       then StatusUnknown else StatusInternal)"
    by (simp add: failure_fields userFailure_configure)
  from run code mp e st show ?thesis
    by metis
qed

theorem ExecWithErr_exit_99_witness:
  "(3::int) \<le> 3000 \<and> [''/bin/bash'', ''-c'', ''exit 99''] \<noteq> []
   \<and> \<not> list_all blank [''/bin/bash'', ''-c'', ''exit 99'']
   \<and> (\<forall>p. ExitCode (fst (exit99 p)) = 99)
   \<and> ExecWithErr lengthDigest 3000 exit99 [''/bin/bash'', ''-c'', ''exit 99''] []
       = Inr (Some \<lparr>ExitCode = 99, Stdout = [], Stderr = [], Combined = []\<rparr>,
              Some (InternalErrorf lengthDigest []))
   \<and> Status (InternalErrorf lengthDigest []) = StatusInternal
   \<and> ExecWithErr lengthDigest 3000 exit99 [''/bin/bash'', ''-c'', ''exit 99'']
         [WithEnv [''A=B''], WithUserAttribution]
       = Inr (Some \<lparr>ExitCode = 99, Stdout = [], Stderr = [], Combined = []\<rparr>,
              Some (UserErrorf lengthDigest []))
   \<and> Status (UserErrorf lengthDigest []) = StatusUnknown"
proof -
  let ?c = "[''/bin/bash'', ''-c'', ''exit 99'']"
  let ?r = "\<lparr>ExitCode = 99, Stdout = [], Stderr = [], Combined = []\<rparr>"
  have nb: "\<not> list_all blank ?c"
    by (simp add: blank_def TrimSpace_def TrimLeftSpace_def TrimRightSpace_def spaceRunes_def)
  have hyps: "(3::int) \<le> 3000" "?c \<noteq> []" "\<forall>p. ExitCode (fst (exit99 p)) = 99"
    by (simp_all add: exit99_def)
  have none: "\<forall>f r. WithMessageProducer f \<in> set opts \<longrightarrow> (\<exists>m. f r = Inr m)"
    if "opts = [] \<or> opts = [WithEnv [''A=B''], WithUserAttribution]"
    for opts :: "ExecOption list" and r :: ExecResult
    using that by auto
  have kt: "keepTail 3000 [] = Inr []"
    by (simp add: keepTail_def TrimSpace_def TrimLeftSpace_def TrimRightSpace_def)
  have mp: "messageProducer (configure 3000 ?c opts) ?r = Inr []"
    if "opts = [] \<or> opts = [WithEnv [''A=B''], WithUserAttribution]" for opts
    using that by (auto simp add: configure_def KeepCombinedTail_def kt)
  have sp: "fst (exit99 p) = ?r" for p
    by (simp add: exit99_def)
  from ExecWithErr_exit_99 [OF hyps(1,2) nb hyps(3) none, of "[]" lengthDigest]
  have r1: "ExecWithErr lengthDigest 3000 exit99 ?c [] =
      Inr (Some ?r, Some (InternalErrorf lengthDigest []))"
    using mp [of "[]"] by (auto simp add: ExecWithErr_def exit99_def Let_def nb
        failure_def configure_def InternalErrorf_def)
  from ExecWithErr_exit_99 [OF hyps(1,2) nb hyps(3) none,
      of "[WithEnv [''A=B''], WithUserAttribution]" lengthDigest]
  have r2: "ExecWithErr lengthDigest 3000 exit99 ?c [WithEnv [''A=B''], WithUserAttribution] =
      Inr (Some ?r, Some (UserErrorf lengthDigest []))"
    using mp [of "[WithEnv [''A=B''], WithUserAttribution]"]
    by (auto simp add: ExecWithErr_def exit99_def Let_def nb failure_def configure_def)
  from hyps nb r1 r2 show ?thesis
    by (simp add: InternalErrorf_def UserErrorf_def Errorf_def)
qed

section \<open>An empty command line\<close>





section \<open>Facts about the cache check\<close>

lemma Version_events: "snd (Version sys) = [Ran [''python3'', ''--version''] []]"
  by (simp add: Version_def split: sum.splits)

lemma cacheExpired_stamp:
  assumes "GetMetadata l expiryTimestampKey \<noteq> []"
    and "timeParse sys (GetMetadata l expiryTimestampKey) = Inr t"
  shows "cacheExpired sys l now1 now2 = (t \<le> now2, [])"
  using assms by (simp add: cacheExpired_def Let_def not_less)

lemma cacheExpired_absent:
  assumes "GetMetadata l expiryTimestampKey = []"
  shows "cacheExpired sys l now1 now2 = (now1 \<le> now2, [])"
  using assms by (simp add: cacheExpired_def Let_def not_less)

lemma cacheExpired_unparsable:
  assumes "GetMetadata l expiryTimestampKey \<noteq> []"
    and "timeParse sys (GetMetadata l expiryTimestampKey) = Inl err"
  shows "cacheExpired sys l now1 now2 =
     (zeroTime \<le> now2,
      [Debugf ''Could not parse expiration date %q, assuming now: %v''
         [GetMetadata l expiryTimestampKey, err]])"
  using assms by (simp add: cacheExpired_def Let_def not_less)

lemma refreshed_fields:
  "Name (refreshed sys l h v now3) = Name l"
  "Path (refreshed sys l h v now3) = Path l"
  "Entries (refreshed sys l h v now3) = []"
  "GetMetadata (refreshed sys l h v now3) dependencyHashKey = h"
  "GetMetadata (refreshed sys l h v now3) pythonVersionKey = v"
  "GetMetadata (refreshed sys l h v now3) expiryTimestampKey
     = timeFormat sys (now3 + expirationTime)"
  by (simp_all add: refreshed_def SetMetadata_def ClearLayer_def GetMetadata_def
      dependencyHashKey_def pythonVersionKey_def expiryTimestampKey_def)

lemma checkCache_hash_error:
  assumes "Version sys = (Returned v, ev0)"
    and "cacheHash sys (opts @ [WithStrings [v]]) = Inl err"
  shows "checkCache sys l opts now1 now2 now3 =
     (Returned (False, Some (''computing dependency hash: '' @ err)), l, ev0)"
  using assms by (simp add: checkCache_def Let_def)

lemma checkCache_expired:
  assumes "Version sys = (Returned v, ev0)"
    and "cacheHash sys (opts @ [WithStrings [v]]) = Inr h"
    and "cacheExpired sys l now1 now2 = (True, ev1)"
  shows "\<exists>ev3. checkCache sys l opts now1 now2 now3 =
     (Returned (False, None), refreshed sys l h v now3,
      ev0 @ ev1 @
      [Debugf ''Current dependency hash: %q'' [h],
       Debugf ''  Cache dependency hash: %q'' [GetMetadata l dependencyHashKey]] @ ev3 @
      [Logf ''Installing application dependencies.'' []])
     \<and> (ev3 = [] \<or> ev3 = [Debugf ''No metadata found from a previous build, skipping cache.'' []])"
  using assms by (simp add: checkCache_def Let_def refreshed_def)

lemma installAll_events:
  "\<forall>x \<in> set (snd (installAll sys v p reqs)). \<exists>c opts. x = Ran c opts"
  by (induction reqs) (auto split: sum.splits prod.splits)

lemma installAll_succeeds:
  assumes "\<forall>c opts. \<exists>r. ctxExec sys c opts = Inr r"
  shows "installAll sys v p reqs = (None, map (\<lambda>req. Ran (pipInstall v req) (pipOptions p)) reqs)"
proof (induction reqs)
  case Nil
  show ?case by simp
next
  case (Cons req reqs)
  obtain r where "ctxExec sys (pipInstall v req) (pipOptions p) = Inr r"
    using assms by blast
  with Cons show ?case by simp
qed

lemma prepareEnv_events: "CacheHit n \<notin> set (snd (prepareEnv sys l))"
  by (simp add: prepareEnv_def split: sum.splits)

lemma prepareEnv_succeeds:
  assumes "\<forall>c opts. \<exists>r. ctxExec sys c opts = Inr r"
  shows "fst (prepareEnv sys l) = None"
proof -
  obtain r where "ctxExec sys (venvCommand l) [] = Inr r"
    using assms by blast
  then show ?thesis by (simp add: prepareEnv_def)
qed

lemma compileAll_events: "CacheHit n \<notin> set (snd (compileAll sys l))"
  by (simp add: compileAll_def split: prod.splits option.splits)

lemma installAfterMiss_no_hit: "CacheHit n \<notin> set (snd (installAfterMiss sys l reqs))"
  using prepareEnv_events [of n sys l] compileAll_events [of n sys l]
    installAll_events [of sys "requiresVirtualEnv sys" "cacheLayerPath sys" reqs]
  by (auto simp add: installAfterMiss_def split: prod.splits option.splits)

lemma installAfterMiss_runs_pip:
  assumes "\<forall>c opts. \<exists>r. ctxExec sys c opts = Inr r" and "req \<in> set reqs"
  shows "Ran (pipInstall (requiresVirtualEnv sys) req) (pipOptions (cacheLayerPath sys))
           \<in> set (snd (installAfterMiss sys l reqs))"
  using installAll_succeeds [OF assms(1), of "requiresVirtualEnv sys" "cacheLayerPath sys" reqs]
    prepareEnv_succeeds [OF assms(1), of l] assms(2)
  by (auto simp add: installAfterMiss_def split: prod.splits option.splits)


lemma checkCache_miss_when_expired:
  assumes "Version sys = (Returned v, ev0)" and "fst (cacheExpired sys l now1 now2)"
  shows "\<exists>err l' ev. checkCache sys l opts now1 now2 now3 = (Returned (False, err), l', ev)"
proof (cases "cacheHash sys (opts @ [WithStrings [v]])")
  case (Inl err)
  from checkCache_hash_error [OF assms(1) Inl] show ?thesis by blast
next
  case (Inr h)
  from assms(2) obtain ev1 where "cacheExpired sys l now1 now2 = (True, ev1)"
    by (cases "cacheExpired sys l now1 now2") simp
  from checkCache_expired [OF assms(1) Inr this] show ?thesis by blast
qed

lemma Version_exampleSystem:
  "Version exampleSystem = (Returned ''Python 3.9.1'', [Ran [''python3'', ''--version''] []])"
  by (simp add: Version_def exampleSystem_def TrimSpace_def TrimLeftSpace_def
      TrimRightSpace_def spaceRunes_def)

section \<open>An expired cache is a miss\<close>

text \<open>
  C4.  Let \<open>python3 --version\<close> succeed, and let the layer hold an expiry timestamp
  that parses to an instant not after the time of the check (in particular, one in
  the past).  Then \<open>checkCache\<close> returns \<open>false\<close>, whatever fingerprint is stored.
  When the fingerprint can be computed, equal to the stored one or not, it returns
  \<open>false\<close> without an error, on the path of the miss: the layer is cleared, the
  metadata holds the current fingerprint, the version and a new expiry, and the log
  says that the dependencies are installed, not that the installation is skipped.
  \<open>InstallRequirements\<close>, for a non-empty list of files, then records a cache miss and
  no cache hit, and when every command succeeds it runs \<open>pip install\<close> for each file.
\<close>

theorem checkCache_expired_is_miss:
  assumes ver: "fst (Version sys) = Returned v"
    and stored: "GetMetadata l expiryTimestampKey \<noteq> []"
    and stamp: "timeParse sys (GetMetadata l expiryTimestampKey) = Inr t"
    and past: "t \<le> now2"
  shows "(\<exists>err l' ev. checkCache sys l opts now1 now2 now3 = (Returned (False, err), l', ev))
     \<and> (\<forall>h. cacheHash sys (opts @ [WithStrings [v]]) = Inr h \<longrightarrow>
           (\<exists>l' ev. checkCache sys l opts now1 now2 now3 = (Returned (False, None), l', ev)
              \<and> Entries l' = []
              \<and> GetMetadata l' dependencyHashKey = h
              \<and> GetMetadata l' pythonVersionKey = v
              \<and> GetMetadata l' expiryTimestampKey = timeFormat sys (now3 + expirationTime)
              \<and> Logf ''Installing application dependencies.'' [] \<in> set ev
              \<and> Logf ''Dependencies cache hit, skipping installation.'' [] \<notin> set ev))
     \<and> (\<forall>h. reqs \<noteq> [] \<and> cacheHash sys ([WithFiles reqs] @ [WithStrings [v]]) = Inr h \<longrightarrow>
           (\<exists>r l' ev. InstallRequirements sys l reqs now1 now2 now3 = (r, l', ev)
              \<and> CacheMiss (Name l) \<in> set ev \<and> CacheHit (Name l) \<notin> set ev
              \<and> ((\<forall>c a. \<exists>res. ctxExec sys c a = Inr res) \<longrightarrow>
                    (\<forall>req \<in> set reqs.
                       Ran (pipInstall (requiresVirtualEnv sys) req)
                           (pipOptions (cacheLayerPath sys)) \<in> set ev))))"
proof (intro conjI allI impI)
  let ?ev0 = "[Ran [''python3'', ''--version''] []]"
  have V: "Version sys = (Returned v, ?ev0)"
    using ver Version_events [of sys] by (cases "Version sys") simp
  have X: "cacheExpired sys l now1 now2 = (True, [])"
    using cacheExpired_stamp [OF stored stamp] past by simp
  show "\<exists>err l' ev. checkCache sys l opts now1 now2 now3 = (Returned (False, err), l', ev)"
    using checkCache_miss_when_expired [OF V] X by simp
  {
    fix h opts'
    assume "cacheHash sys (opts' @ [WithStrings [v]]) = Inr h"
    from checkCache_expired [OF V this X, of now3] obtain ev3 where
      cc: "checkCache sys l opts' now1 now2 now3 =
            (Returned (False, None), refreshed sys l h v now3,
             ?ev0 @ [] @
             [Debugf ''Current dependency hash: %q'' [h],
              Debugf ''  Cache dependency hash: %q'' [GetMetadata l dependencyHashKey]] @ ev3 @
             [Logf ''Installing application dependencies.'' []])"
      and e3: "ev3 = [] \<or>
               ev3 = [Debugf ''No metadata found from a previous build, skipping cache.'' []]"
      by blast
    from e3 have "Logf ''Dependencies cache hit, skipping installation.'' [] \<notin> set ev3"
      and "CacheHit (Name l) \<notin> set ev3"
      by auto
    with cc
    have "\<exists>ev. checkCache sys l opts' now1 now2 now3
             = (Returned (False, None), refreshed sys l h v now3, ev)
          \<and> Logf ''Installing application dependencies.'' [] \<in> set ev
          \<and> Logf ''Dependencies cache hit, skipping installation.'' [] \<notin> set ev
          \<and> CacheHit (Name l) \<notin> set ev"
      by simp
  } note miss = this
  {
    fix h
    assume "cacheHash sys (opts @ [WithStrings [v]]) = Inr h"
    from miss [OF this]
    show "\<exists>l' ev. checkCache sys l opts now1 now2 now3 = (Returned (False, None), l', ev)
              \<and> Entries l' = []
              \<and> GetMetadata l' dependencyHashKey = h
              \<and> GetMetadata l' pythonVersionKey = v
              \<and> GetMetadata l' expiryTimestampKey = timeFormat sys (now3 + expirationTime)
              \<and> Logf ''Installing application dependencies.'' [] \<in> set ev
              \<and> Logf ''Dependencies cache hit, skipping installation.'' [] \<notin> set ev"
      using refreshed_fields [of sys l h v now3] by auto
  }
  {
    fix h
    assume a: "reqs \<noteq> [] \<and> cacheHash sys ([WithFiles reqs] @ [WithStrings [v]]) = Inr h"
    then have ne: "reqs \<noteq> []"
      and "cacheHash sys ([WithFiles reqs] @ [WithStrings [v]]) = Inr h"
      by simp_all
    from miss [OF this(2)] obtain ev where
      cc: "checkCache sys l [WithFiles reqs] now1 now2 now3
             = (Returned (False, None), refreshed sys l h v now3, ev)"
      and nohit: "CacheHit (Name l) \<notin> set ev"
      by blast
    let ?l1 = "refreshed sys l h v now3"
    obtain r ev' where am: "installAfterMiss sys ?l1 reqs = (r, ev')"
      by (cases "installAfterMiss sys ?l1 reqs")
    have run: "InstallRequirements sys l reqs now1 now2 now3
                 = (r, ?l1, ev @ [CacheMiss (Name l)] @ ev')"
      using ne cc am by (simp add: InstallRequirements_def refreshed_fields)
    have nohit': "CacheHit (Name l) \<notin> set ev'"
      using installAfterMiss_no_hit [of "Name l" sys ?l1 reqs] am by simp
    have pip: "Ran (pipInstall (requiresVirtualEnv sys) req)
                   (pipOptions (cacheLayerPath sys)) \<in> set ev'"
      if "\<forall>c a. \<exists>res. ctxExec sys c a = Inr res" and "req \<in> set reqs" for req
      using installAfterMiss_runs_pip [OF that, of ?l1] am by simp
    show "\<exists>r l' ev. InstallRequirements sys l reqs now1 now2 now3 = (r, l', ev)
              \<and> CacheMiss (Name l) \<in> set ev \<and> CacheHit (Name l) \<notin> set ev
              \<and> ((\<forall>c a. \<exists>res. ctxExec sys c a = Inr res) \<longrightarrow>
                    (\<forall>req \<in> set reqs.
                       Ran (pipInstall (requiresVirtualEnv sys) req)
                           (pipOptions (cacheLayerPath sys)) \<in> set ev))"
      using run nohit nohit' pip by auto
  }
qed

theorem checkCache_expired_is_miss_witness:
  "fst (Version exampleSystem) = Returned ''Python 3.9.1''
   \<and> GetMetadata staleLayer expiryTimestampKey \<noteq> []
   \<and> timeParse exampleSystem (GetMetadata staleLayer expiryTimestampKey) = Inr 1000
   \<and> (1000::int) \<le> 2001
   \<and> cacheHash exampleSystem
        ([WithFiles [''requirements.txt'']] @ [WithStrings [''Python 3.9.1'']])
        = Inr (GetMetadata staleLayer dependencyHashKey)
   \<and> fst (checkCache exampleSystem staleLayer [WithFiles [''requirements.txt'']] 2000 2001 2002)
        = Returned (False, None)
   \<and> Ran (pipInstall False ''requirements.txt'') (pipOptions ''/layers/pipcache'')
        \<in> set (snd (snd (InstallRequirements exampleSystem staleLayer [''requirements.txt'']
                            2000 2001 2002)))"
proof -
  have ver: "fst (Version exampleSystem) = Returned ''Python 3.9.1''"
    by (simp add: Version_exampleSystem)
  have stamp: "GetMetadata staleLayer expiryTimestampKey \<noteq> []"
    "timeParse exampleSystem (GetMetadata staleLayer expiryTimestampKey) = Inr 1000"
    "(1000::int) \<le> 2001"
    by (simp_all add: GetMetadata_def staleLayer_def expiryTimestampKey_def exampleSystem_def)
  note hyps = ver stamp
  have hash: "cacheHash exampleSystem
        ([WithFiles [''requirements.txt'']] @ [WithStrings [''Python 3.9.1'']])
        = Inr (GetMetadata staleLayer dependencyHashKey)"
    by (simp add: exampleSystem_def GetMetadata_def staleLayer_def dependencyHashKey_def)
  have ok: "\<forall>c a. \<exists>res. ctxExec exampleSystem c a = Inr res"
    by (simp add: exampleSystem_def)
  have env: "requiresVirtualEnv exampleSystem = False"
    "cacheLayerPath exampleSystem = ''/layers/pipcache''"
    by (simp_all add: requiresVirtualEnv_def exampleSystem_def)
  note T = checkCache_expired_is_miss [OF hyps, of "[WithFiles [''requirements.txt'']]"
      2000 2002 "[''requirements.txt'']"]
  from T hash have c1: "fst (checkCache exampleSystem staleLayer
      [WithFiles [''requirements.txt'']] 2000 2001 2002) = Returned (False, None)"
    by fastforce
  from T hash ok have c2: "Ran (pipInstall (requiresVirtualEnv exampleSystem) ''requirements.txt'')
        (pipOptions (cacheLayerPath exampleSystem))
        \<in> set (snd (snd (InstallRequirements exampleSystem staleLayer [''requirements.txt'']
                            2000 2001 2002)))"
    by fastforce
  from hyps hash c1 c2 show ?thesis
    by (simp add: env)
qed

section \<open>A layer without a timestamp that parses\<close>

text \<open>
  C10.  Let the clock not run backwards between the two readings of \<open>cacheExpired\<close>
  and not show an instant before the zero time.  When the expiry timestamp of the
  layer is absent (the empty string) or does not parse, \<open>cacheExpired\<close> returns
  \<open>true\<close>, and \<open>checkCache\<close>, once \<open>python3 --version\<close> has succeeded, returns \<open>false\<close>,
  whatever fingerprint is stored.
\<close>

theorem cacheExpired_without_timestamp:
  assumes "now1 \<le> now2" and "zeroTime \<le> now2"
    and "GetMetadata l expiryTimestampKey = []
         \<or> isl (timeParse sys (GetMetadata l expiryTimestampKey))"
  shows "fst (cacheExpired sys l now1 now2)
     \<and> (\<forall>v. fst (Version sys) = Returned v \<longrightarrow>
          (\<exists>err l' ev. checkCache sys l opts now1 now2 now3 = (Returned (False, err), l', ev)))"
proof -
  have X: "fst (cacheExpired sys l now1 now2)"
  proof (cases "GetMetadata l expiryTimestampKey = []")
    case True
    with cacheExpired_absent [OF True, of sys now1 now2] assms(1) show ?thesis by simp
  next
    case False
    with assms(3) obtain err where "timeParse sys (GetMetadata l expiryTimestampKey) = Inl err"
      by (cases "timeParse sys (GetMetadata l expiryTimestampKey)") auto
    from cacheExpired_unparsable [OF False this, of now1 now2] assms(2) show ?thesis by simp
  qed
  have "\<exists>err l' ev. checkCache sys l opts now1 now2 now3 = (Returned (False, err), l', ev)"
    if "fst (Version sys) = Returned v" for v
  proof -
    from that obtain ev0 where "Version sys = (Returned v, ev0)"
      by (cases "Version sys") simp
    from checkCache_miss_when_expired [OF this X] show ?thesis .
  qed
  with X show ?thesis by blast
qed


theorem cacheExpired_without_timestamp_witness:
  "(2000::int) \<le> 2001 \<and> zeroTime \<le> 2001
   \<and> GetMetadata unstampedLayer expiryTimestampKey = []
   \<and> isl (timeParse exampleSystem (GetMetadata garbledLayer expiryTimestampKey))
   \<and> fst (Version exampleSystem) = Returned ''Python 3.9.1''
   \<and> fst (cacheExpired exampleSystem unstampedLayer 2000 2001)
   \<and> fst (cacheExpired exampleSystem garbledLayer 2000 2001)
   \<and> fst (checkCache exampleSystem unstampedLayer [WithFiles [''requirements.txt'']]
             2000 2001 2002) = Returned (False, None)
   \<and> fst (checkCache exampleSystem garbledLayer [WithFiles [''requirements.txt'']]
             2000 2001 2002) = Returned (False, None)"
proof -
  have clock: "(2000::int) \<le> 2001" "zeroTime \<le> 2001"
    by (simp_all add: zeroTime_def)
  have absent: "GetMetadata unstampedLayer expiryTimestampKey = []"
    by (simp add: GetMetadata_def unstampedLayer_def expiryTimestampKey_def)
  have garbled: "isl (timeParse exampleSystem (GetMetadata garbledLayer expiryTimestampKey))"
    by (simp add: GetMetadata_def garbledLayer_def expiryTimestampKey_def exampleSystem_def)
  have ver: "fst (Version exampleSystem) = Returned ''Python 3.9.1''"
    by (simp add: Version_exampleSystem)
  have hash: "cacheHash exampleSystem opts = Inr ''abc''" for opts
    by (simp add: exampleSystem_def)
  from absent have d1: "GetMetadata unstampedLayer expiryTimestampKey = []
      \<or> isl (timeParse exampleSystem (GetMetadata unstampedLayer expiryTimestampKey))"
    by simp
  from garbled have d2: "GetMetadata garbledLayer expiryTimestampKey = []
      \<or> isl (timeParse exampleSystem (GetMetadata garbledLayer expiryTimestampKey))"
    by simp
  note T1 = cacheExpired_without_timestamp [OF clock d1,
      of "[WithFiles [''requirements.txt'']]" 2002]
  note T2 = cacheExpired_without_timestamp [OF clock d2,
      of "[WithFiles [''requirements.txt'']]" 2002]
  have r1: "fst (checkCache exampleSystem unstampedLayer [WithFiles [''requirements.txt'']]
             2000 2001 2002) = Returned (False, None)"
    using T1 ver by (auto simp add: checkCache_def Version_exampleSystem hash Let_def
        split: prod.splits if_splits)
  have r2: "fst (checkCache exampleSystem garbledLayer [WithFiles [''requirements.txt'']]
             2000 2001 2002) = Returned (False, None)"
    using T2 ver by (auto simp add: checkCache_def Version_exampleSystem hash Let_def
        split: prod.splits if_splits)
  from clock absent garbled ver T1 T2 r1 r2 show ?thesis
    by simp
qed

end
